theory Spec2Isabelle
  imports Complex_Main
begin

section \<open>Single-precision values\<close>

text \<open>
  The C++ type \<^verbatim>\<open>float\<close> is modelled with its special values: a finite value carries
  a real number, and the two infinities and NaN are constructors of their own. The
  arithmetic follows IEEE-754 on the special values (NaN is absorbing, a comparison with
  NaN is false, \<open>x / 0\<close> is an infinity or NaN, \<open>\<infinity> - \<infinity>\<close> and \<open>0 \<sdot> \<infinity>\<close> are NaN).
  On finite values the arithmetic is exact: rounding, overflow to infinity and the sign of
  zero are not modelled, except in the adjustment of \<^verbatim>\<open>currentMinActDist\<close> and
  in the test for a failed initialisation, where the rounded operations are parameters
  (see below). Every property below that speaks of "finite", "non-finite" or of the
  outcome of a comparison is a property of this idealisation.
\<close>

datatype cfloat = Fl real | PInf | NInf | NaN

fun isfinite :: "cfloat \<Rightarrow> bool" where
  "isfinite (Fl x) = True"
| "isfinite PInf = False"
| "isfinite NInf = False"
| "isfinite NaN = False"

instantiation cfloat :: "{plus,minus,uminus,times,inverse,abs,ord}"
begin

fun plus_cfloat :: "cfloat \<Rightarrow> cfloat \<Rightarrow> cfloat" where
  "plus_cfloat NaN b = NaN"
| "plus_cfloat a NaN = NaN"
| "plus_cfloat (Fl x) (Fl y) = Fl (x + y)"
| "plus_cfloat PInf NInf = NaN"
| "plus_cfloat NInf PInf = NaN"
| "plus_cfloat PInf b = PInf"
| "plus_cfloat a PInf = PInf"
| "plus_cfloat NInf b = NInf"
| "plus_cfloat a NInf = NInf"

fun uminus_cfloat :: "cfloat \<Rightarrow> cfloat" where
  "uminus_cfloat (Fl x) = Fl (- x)"
| "uminus_cfloat PInf = NInf"
| "uminus_cfloat NInf = PInf"
| "uminus_cfloat NaN = NaN"

definition minus_cfloat :: "cfloat \<Rightarrow> cfloat \<Rightarrow> cfloat" where
  "minus_cfloat a b = a + (- b)"

fun times_cfloat :: "cfloat \<Rightarrow> cfloat \<Rightarrow> cfloat" where
  "times_cfloat NaN b = NaN"
| "times_cfloat a NaN = NaN"
| "times_cfloat (Fl x) (Fl y) = Fl (x * y)"
| "times_cfloat (Fl x) PInf = (if x = 0 then NaN else if 0 < x then PInf else NInf)"
| "times_cfloat (Fl x) NInf = (if x = 0 then NaN else if 0 < x then NInf else PInf)"
| "times_cfloat PInf (Fl y) = (if y = 0 then NaN else if 0 < y then PInf else NInf)"
| "times_cfloat NInf (Fl y) = (if y = 0 then NaN else if 0 < y then NInf else PInf)"
| "times_cfloat PInf PInf = PInf"
| "times_cfloat NInf NInf = PInf"
| "times_cfloat PInf NInf = NInf"
| "times_cfloat NInf PInf = NInf"

fun divide_cfloat :: "cfloat \<Rightarrow> cfloat \<Rightarrow> cfloat" where
  "divide_cfloat NaN b = NaN"
| "divide_cfloat a NaN = NaN"
| "divide_cfloat (Fl x) (Fl y) =
     (if y = 0 then (if x = 0 then NaN else if 0 < x then PInf else NInf) else Fl (x / y))"
| "divide_cfloat (Fl x) PInf = Fl 0"
| "divide_cfloat (Fl x) NInf = Fl 0"
| "divide_cfloat PInf (Fl y) = (if 0 \<le> y then PInf else NInf)"
| "divide_cfloat NInf (Fl y) = (if 0 \<le> y then NInf else PInf)"
| "divide_cfloat PInf b = NaN"
| "divide_cfloat NInf b = NaN"

definition inverse_cfloat :: "cfloat \<Rightarrow> cfloat" where
  "inverse_cfloat a = divide (Fl 1) a"

fun abs_cfloat :: "cfloat \<Rightarrow> cfloat" where
  "abs_cfloat (Fl x) = Fl \<bar>x\<bar>"
| "abs_cfloat PInf = PInf"
| "abs_cfloat NInf = PInf"
| "abs_cfloat NaN = NaN"

fun less_cfloat :: "cfloat \<Rightarrow> cfloat \<Rightarrow> bool" where
  "less_cfloat NaN b = False"
| "less_cfloat a NaN = False"
| "less_cfloat (Fl x) (Fl y) = (x < y)"
| "less_cfloat a NInf = False"
| "less_cfloat PInf b = False"
| "less_cfloat NInf b = True"
| "less_cfloat a PInf = True"

fun less_eq_cfloat :: "cfloat \<Rightarrow> cfloat \<Rightarrow> bool" where
  "less_eq_cfloat NaN b = False"
| "less_eq_cfloat a NaN = False"
| "less_eq_cfloat (Fl x) (Fl y) = (x \<le> y)"
| "less_eq_cfloat NInf b = True"
| "less_eq_cfloat a PInf = True"
| "less_eq_cfloat a NInf = False"
| "less_eq_cfloat PInf b = False"

instance ..

end

text \<open>\<^verbatim>\<open>sqrtf\<close> and \<^verbatim>\<open>floorf\<close>.\<close>

fun sqrtf :: "cfloat \<Rightarrow> cfloat" where
  "sqrtf (Fl x) = (if x < 0 then NaN else Fl (sqrt x))"
| "sqrtf PInf = PInf"
| "sqrtf NInf = NaN"
| "sqrtf NaN = NaN"

fun floorf :: "cfloat \<Rightarrow> cfloat" where
  "floorf (Fl x) = Fl (of_int \<lfloor>x\<rfloor>)"
| "floorf a = a"

text \<open>
  Conversions. An \<^verbatim>\<open>int\<close> converts to the float of the same value. The conversion
  \<^verbatim>\<open>(int) x\<close> truncates towards zero; for a value that is not finite or does not fit
  32 bits C++ leaves the result undefined, and the model returns what the x86
  conversion instruction returns, \<open>- 2 ^ 31\<close>.
\<close>

definition of_int_f :: "int \<Rightarrow> cfloat" where
  "of_int_f i = Fl (of_int i)"

fun to_int :: "cfloat \<Rightarrow> int" where
  "to_int (Fl x) =
     (let t = (if 0 \<le> x then \<lfloor>x\<rfloor> else \<lceil>x\<rceil>)
      in if - (2 ^ 31) \<le> t \<and> t < 2 ^ 31 then t else - (2 ^ 31))"
| "to_int a = - (2 ^ 31)"

text \<open>
  Rounded operations. Two functions below, the adjustment of \<^verbatim>\<open>currentMinActDist\<close>
  and the test for a failed initialisation, compare a value with a product and add
  constants to a field, and which branch they take depends on how the machine rounds
  these results. There the operations on finite values are parameters: \<open>r_mul\<close>,
  \<open>r_add\<close> and \<open>r_sub\<close> give the product, the sum and the difference of two finite
  values as the machine computes them, in the type in which the source computes them (an
  operand that is a literal of the source is named by its decimal value; its own
  rounding is part of the operation). On the special values the operations are the ones
  above.
\<close>

type_synonym rounded_op = "real \<Rightarrow> real \<Rightarrow> real"

record rounding =
  r_mul :: rounded_op
  r_add :: rounded_op
  r_sub :: rounded_op

fun rounded :: "rounded_op \<Rightarrow> (cfloat \<Rightarrow> cfloat \<Rightarrow> cfloat) \<Rightarrow> cfloat \<Rightarrow> cfloat \<Rightarrow> cfloat" where
  "rounded r special (Fl x) (Fl y) = Fl (r x y)"
| "rounded r special a b = special a b"

definition mulR :: "rounding \<Rightarrow> cfloat \<Rightarrow> cfloat \<Rightarrow> cfloat" where
  "mulR R a b = rounded (r_mul R) (\<lambda>a b. a * b) a b"

definition addR :: "rounding \<Rightarrow> cfloat \<Rightarrow> cfloat \<Rightarrow> cfloat" where
  "addR R a b = rounded (r_add R) (\<lambda>a b. a + b) a b"

definition subR :: "rounding \<Rightarrow> cfloat \<Rightarrow> cfloat \<Rightarrow> cfloat" where
  "subR R a b = rounded (r_sub R) (\<lambda>a b. a - b) a b"

section \<open>Small fixed-size vectors and matrices\<close>

type_synonym Vec2f = "cfloat \<times> cfloat"
type_synonym Vec3f = "cfloat \<times> cfloat \<times> cfloat"
type_synonym Mat22f = "Vec2f \<times> Vec2f"
type_synonym Mat33f = "Vec3f \<times> Vec3f \<times> Vec3f"

text \<open>Component access \<^verbatim>\<open>v[0]\<close>, \<^verbatim>\<open>v[1]\<close>, \<^verbatim>\<open>v[2]\<close> of a three-vector.\<close>

fun v0 :: "Vec3f \<Rightarrow> cfloat" where "v0 (a, b, c) = a"
fun v1 :: "Vec3f \<Rightarrow> cfloat" where "v1 (a, b, c) = b"
fun v2 :: "Vec3f \<Rightarrow> cfloat" where "v2 (a, b, c) = c"

text \<open>Matrix times vector, vector plus vector, vector times scalar; matrices are rows.\<close>

fun mat33_vec :: "Mat33f \<Rightarrow> Vec3f \<Rightarrow> Vec3f" where
  "mat33_vec ((a00, a01, a02), (a10, a11, a12), (a20, a21, a22)) (x, y, z) =
     (a00 * x + a01 * y + a02 * z, a10 * x + a11 * y + a12 * z, a20 * x + a21 * y + a22 * z)"

fun mat22_vec :: "Mat22f \<Rightarrow> Vec2f \<Rightarrow> Vec2f" where
  "mat22_vec ((a00, a01), (a10, a11)) (x, y) = (a00 * x + a01 * y, a10 * x + a11 * y)"

fun vec3_add :: "Vec3f \<Rightarrow> Vec3f \<Rightarrow> Vec3f" where
  "vec3_add (a, b, c) (x, y, z) = (a + x, b + y, c + z)"

fun vec3_scale :: "Vec3f \<Rightarrow> cfloat \<Rightarrow> Vec3f" where
  "vec3_scale (a, b, c) k = (a * k, b * k, c * k)"

fun topLeftCorner22 :: "Mat33f \<Rightarrow> Mat22f" where
  "topLeftCorner22 ((a00, a01, a02), (a10, a11, a12), r2) = ((a00, a01), (a10, a11))"

text \<open>The quadratic form \<^verbatim>\<open>w.transpose() * M * w\<close>.\<close>

fun quadform :: "Mat22f \<Rightarrow> Vec2f \<Rightarrow> cfloat" where
  "quadform ((m00, m01), (m10, m11)) (x, y) =
     (x * m00 + y * m10) * x + (x * m01 + y * m11) * y"

section \<open>Settings, frames and immature points\<close>

text \<open>
  Constants and globals that are declared outside the two source files (the settings,
  the residual pattern \<^verbatim>\<open>patternP\<close>, the image sizes \<^verbatim>\<open>wG[0]\<close>, \<^verbatim>\<open>hG[0]\<close>, \<^verbatim>\<open>wG[1]\<close>,
  \<^verbatim>\<open>hG[1]\<close>) are parameters of the model, collected in one record.
\<close>

record settings =
  patternP :: "(int \<times> int) list"
  setting_outlierTH :: cfloat
  setting_outlierTHSumComponent :: cfloat
  setting_overallEnergyTHWeight :: cfloat
  setting_huberTH :: cfloat
  setting_maxPixSearch :: cfloat
  setting_trace_stepsize :: cfloat
  setting_trace_slackInterval :: cfloat
  setting_trace_minImprovementFactor :: cfloat
  setting_trace_GNIterations :: int
  setting_trace_GNThreshold :: cfloat
  setting_trace_extraSlackOnTH :: cfloat
  setting_minTraceTestRadius :: int
  setting_minTraceQuality :: cfloat
  setting_desiredPointDensity :: cfloat
  benchmark_initializerSlackFactor :: cfloat
  wG0 :: int
  hG0 :: int
  wG1 :: int
  hG1 :: int

text \<open>The number of pattern pixels, \<^verbatim>\<open>patternNum\<close>.\<close>

definition patternNum :: "settings \<Rightarrow> nat" where
  "patternNum S = length (patternP S)"

text \<open>
  A frame is seen through the interpolation routines applied to its image
  \<^verbatim>\<open>dI\<close>: \<^verbatim>\<open>getInterpolatedElement31\<close> gives the intensity at a sub-pixel position,
  \<^verbatim>\<open>getInterpolatedElement33\<close> and \<^verbatim>\<open>getInterpolatedElement33BiLin\<close> the intensity and
  the two gradients. The routines themselves are outside the two source files.
\<close>

record FrameHessian =
  getInterpolatedElement31 :: "cfloat \<Rightarrow> cfloat \<Rightarrow> cfloat"
  getInterpolatedElement33 :: "cfloat \<Rightarrow> cfloat \<Rightarrow> Vec3f"
  getInterpolatedElement33BiLin :: "cfloat \<Rightarrow> cfloat \<Rightarrow> Vec3f"

datatype ImmaturePointStatus =
  IPS_GOOD | IPS_OOB | IPS_OUTLIER | IPS_SKIPPED | IPS_BADCONDITION | IPS_UNINITIALIZED

text \<open>
  The fields of \<^verbatim>\<open>ImmaturePoint\<close> that the functions below read or write. The pixel
  \<^verbatim>\<open>u\<close>, \<^verbatim>\<open>v\<close> is \<open>ip_u\<close>, \<open>ip_v\<close>; \<open>host_flaggedForMarginalization\<close> is what
  \<^verbatim>\<open>host->flaggedForMarginalization\<close> reads through the point's host pointer.
\<close>

record ImmaturePoint =
  ip_u :: cfloat
  ip_v :: cfloat
  color :: "cfloat list"
  weights :: "cfloat list"
  gradH :: Mat22f
  point_type :: cfloat
  energyTH :: cfloat
  idepth_min :: cfloat
  idepth_max :: cfloat
  quality :: cfloat
  lastTraceStatus :: ImmaturePointStatus
  lastTraceUV :: Vec2f
  lastTracePixelInterval :: cfloat
  idxInImmaturePoints :: nat
  host_flaggedForMarginalization :: bool

subsection \<open>The constructor\<close>



section \<open>traceOn\<close>

subsection \<open>Projecting the interval's endpoints\<close>

text \<open>A return of \<^verbatim>\<open>traceOn\<close>: the status, and the point as the call leaves it.\<close>

type_synonym trace_return = "ImmaturePointStatus \<times> ImmaturePoint"

text \<open>
  The three statements \<^verbatim>\<open>lastTraceUV = Vec2f(-1,-1); lastTracePixelInterval=0;
  return lastTraceStatus = st;\<close> that end every failing path.
\<close>

definition trace_fail :: "ImmaturePointStatus \<Rightarrow> ImmaturePoint \<Rightarrow> trace_return" where
  "trace_fail st p =
     (st, p\<lparr>lastTraceUV := (Fl (-1), Fl (-1)), lastTracePixelInterval := Fl 0,
            lastTraceStatus := st\<rparr>)"

text \<open>
  The test \<^verbatim>\<open>x > boundU && y > boundV && x < wG[0]-boundU-1 && y < hG[0]-boundV-1\<close>
  that the source applies to each projected endpoint.
\<close>

definition inBounds :: "settings \<Rightarrow> int \<times> int \<Rightarrow> Vec2f \<Rightarrow> bool" where
  "inBounds S bound uv =
     (fst uv > of_int_f (fst bound) \<and> snd uv > of_int_f (snd bound) \<and>
      fst uv < of_int_f (wG0 S - fst bound - 1) \<and> snd uv < of_int_f (hG0 S - snd bound - 1))"

text \<open>The pattern rotated by the upper left 2x2 block of \<^verbatim>\<open>hostToFrame_KRKi\<close>.\<close>

definition rotatePattern :: "settings \<Rightarrow> Mat33f \<Rightarrow> Vec2f list" where
  "rotatePattern S KRKi =
     map (\<lambda>(px, py). mat22_vec (topLeftCorner22 KRKi) (of_int_f px, of_int_f py)) (patternP S)"

text \<open>The loop that finds \<^verbatim>\<open>maxRotPatX\<close> and \<^verbatim>\<open>maxRotPatY\<close>, started at \<open>(0, 0)\<close>.\<close>

fun maxRotPat :: "Vec2f list \<Rightarrow> int \<times> int \<Rightarrow> int \<times> int" where
  "maxRotPat [] m = m"
| "maxRotPat (r # rs) (maxRotPatX, maxRotPatY) =
     (let absX = to_int \<bar>fst r\<bar>; absY = to_int \<bar>snd r\<bar>
      in maxRotPat rs (max absX maxRotPatX, max absY maxRotPatY))"

text \<open>The pair \<^verbatim>\<open>(boundU, boundV)\<close>.\<close>

definition traceBounds :: "settings \<Rightarrow> Mat33f \<Rightarrow> int \<times> int" where
  "traceBounds S KRKi =
     (let maxRot = maxRotPat (rotatePattern S KRKi) (0, 0);
          realBoundU = fst maxRot + 2;
          realBoundV = snd maxRot + 2
      in (max 4 realBoundU, max 4 realBoundV))"

text \<open>
  \<^verbatim>\<open>pr + hostToFrame_Kt*idepth\<close>, and the pixel \<^verbatim>\<open>(ptp[0] / ptp[2], ptp[1] / ptp[2])\<close>
  of such a point.
\<close>

definition ptpAt :: "Vec3f \<Rightarrow> Vec3f \<Rightarrow> cfloat \<Rightarrow> Vec3f" where
  "ptpAt pr' hostToFrame_Kt idepth = vec3_add pr' (vec3_scale hostToFrame_Kt idepth)"

definition pixelOf :: "Vec3f \<Rightarrow> Vec2f" where
  "pixelOf ptp = (v0 ptp / v2 ptp, v1 ptp / v2 ptp)"

text \<open>The distance of the two projected endpoints, in pixels.\<close>

definition endpointDist :: "Vec2f \<Rightarrow> Vec2f \<Rightarrow> cfloat" where
  "endpointDist uvMin uvMax =
     sqrtf ((fst uvMin - fst uvMax) * (fst uvMin - fst uvMax)
            + (snd uvMin - snd uvMax) * (snd uvMin - snd uvMax))"

text \<open>The locals that are live after the endpoints have been projected.\<close>

record endpoints =
  pr :: Vec3f
  ptpMin :: Vec3f
  uMin :: cfloat
  vMin :: cfloat
  uMax :: cfloat
  vMax :: cfloat
  dist :: cfloat
  maxPixSearch :: cfloat
  rotatetPattern :: "Vec2f list"

text \<open>
  From the start of \<^verbatim>\<open>traceOn\<close> to the scale-change test: either an early return
  (\<open>Inl\<close>: OOB or SKIPPED) or the locals (\<open>Inr\<close>). The \<^verbatim>\<open>assert(dist>0)\<close> of the
  source is compiled out in a release build and is not modelled.
\<close>

definition traceOn_project ::
  "settings \<Rightarrow> ImmaturePoint \<Rightarrow> Mat33f \<Rightarrow> Vec3f \<Rightarrow> trace_return + endpoints" where
  "traceOn_project S p hostToFrame_KRKi hostToFrame_Kt =
     (let maxPixSearch' = of_int_f (wG0 S + hG0 S) * setting_maxPixSearch S;
          pr' = mat33_vec hostToFrame_KRKi (ip_u p, ip_v p, Fl 1);
          ptpMin' = ptpAt pr' hostToFrame_Kt (idepth_min p);
          uvMin = pixelOf ptpMin';
          bound = traceBounds S hostToFrame_KRKi
      in
      if \<not> inBounds S bound uvMin then Inl (trace_fail IPS_OOB p)
      else
        (case
          (if isfinite (idepth_max p) then
             (let ptpMax = ptpAt pr' hostToFrame_Kt (idepth_max p);
                  uvMax = pixelOf ptpMax
              in
              if \<not> inBounds S bound uvMax then Inl (trace_fail IPS_OOB p)
              else
                (let dist' = endpointDist uvMin uvMax
                 in
                 if dist' < setting_trace_slackInterval S then
                   Inl (IPS_SKIPPED,
                        p\<lparr>lastTraceUV := ((fst uvMax + fst uvMin) * Fl 0.5,
                                          (snd uvMax + snd uvMin) * Fl 0.5),
                          lastTracePixelInterval := dist',
                          lastTraceStatus := IPS_SKIPPED\<rparr>)
                 else Inr (uvMax, dist')))
           else
             (let dist' = maxPixSearch';
                  ptpMax = ptpAt pr' hostToFrame_Kt (Fl 0.01);
                  uvMax0 = pixelOf ptpMax;
                  dx = fst uvMax0 - fst uvMin;
                  dy = snd uvMax0 - snd uvMin;
                  d = Fl 1 / sqrtf (dx * dx + dy * dy);
                  uvMax = (fst uvMin + dist' * dx * d, snd uvMin + dist' * dy * d)
              in
              if \<not> inBounds S bound uvMax then Inl (trace_fail IPS_OOB p)
              else Inr (uvMax, dist')))
         of
           Inl r \<Rightarrow> Inl r
         | Inr (uvMax, dist') \<Rightarrow>
             if \<not> (idepth_min p < Fl 0 \<or> (v2 ptpMin' > Fl 0.75 \<and> v2 ptpMin' < Fl 1.5))
             then Inl (trace_fail IPS_OOB p)
             else Inr \<lparr>pr = pr', ptpMin = ptpMin', uMin = fst uvMin, vMin = snd uvMin,
                       uMax = fst uvMax, vMax = snd uvMax, dist = dist',
                       maxPixSearch = maxPixSearch',
                       rotatetPattern = rotatePattern S hostToFrame_KRKi\<rparr>))"

subsection \<open>Error bound and search line\<close>

text \<open>The locals that are live when the discrete search starts.\<close>

record searchline =
  dx :: cfloat
  dy :: cfloat
  errorInPixel :: cfloat
  numSteps :: int
  ptx :: cfloat
  pty :: cfloat

text \<open>
  From the error bound to the test for a non-finite direction: BADCONDITION, OOB, or the
  locals of the search. The values of \<^verbatim>\<open>uMax\<close>, \<^verbatim>\<open>vMax\<close> and \<^verbatim>\<open>dist\<close> after the cap
  to \<^verbatim>\<open>maxPixSearch\<close> are read only through \<^verbatim>\<open>numSteps\<close>.
\<close>

definition traceOn_errorBounds ::
  "settings \<Rightarrow> ImmaturePoint \<Rightarrow> endpoints \<Rightarrow> trace_return + searchline" where
  "traceOn_errorBounds S p e =
     (let dx0 = setting_trace_stepsize S * (uMax e - uMin e);
          dy0 = setting_trace_stepsize S * (vMax e - vMin e);
          a = quadform (gradH p) (dx0, dy0);
          b = quadform (gradH p) (dy0, - dx0);
          errorInPixel0 = Fl 0.2 + Fl 0.2 * (a + b) / a
      in
      if errorInPixel0 * setting_trace_minImprovementFactor S > dist e \<and> isfinite (idepth_max p)
      then
        Inl (IPS_BADCONDITION,
             p\<lparr>lastTraceUV := ((uMax e + uMin e) * Fl 0.5, (vMax e + vMin e) * Fl 0.5),
               lastTracePixelInterval := dist e,
               lastTraceStatus := IPS_BADCONDITION\<rparr>)
      else
        (let errorInPixel' = (if errorInPixel0 > Fl 10 then Fl 10 else errorInPixel0);
             dx' = dx0 / dist e;
             dy' = dy0 / dist e;
             dist' = (if dist e > maxPixSearch e then maxPixSearch e else dist e);
             numSteps' = to_int (Fl 1.9999 + dist' / setting_trace_stepsize S);
             randShift = uMin e * Fl 1000 - floorf (uMin e * Fl 1000);
             ptx' = uMin e - randShift * dx';
             pty' = vMin e - randShift * dy'
         in
         if \<not> isfinite dx' \<or> \<not> isfinite dy' then Inl (trace_fail IPS_OOB p)
         else Inr \<lparr>dx = dx', dy = dy', errorInPixel = errorInPixel',
                   numSteps = (if numSteps' \<ge> 100 then 99 else numSteps'),
                   ptx = ptx', pty = pty'\<rparr>))"

subsection \<open>Discrete search\<close>

text \<open>
  The Huber weight \<^verbatim>\<open>fabs(residual) < setting_huberTH ? 1 : setting_huberTH / fabs(residual)\<close>,
  written out in \<^verbatim>\<open>traceOn\<close> (twice) and in \<^verbatim>\<open>calcResidual\<close>.
\<close>

definition huberWeight :: "settings \<Rightarrow> cfloat \<Rightarrow> cfloat" where
  "huberWeight S residual =
     (if \<bar>residual\<bar> < setting_huberTH S then Fl 1 else setting_huberTH S / \<bar>residual\<bar>)"

text \<open>
  The energy of the pattern at one position of the search line: the inner loop over
  \<^verbatim>\<open>idx\<close>, with \<^verbatim>\<open>continue\<close> after a non-finite colour.
\<close>

fun searchEnergy ::
  "settings \<Rightarrow> FrameHessian \<Rightarrow> ImmaturePoint \<Rightarrow> Vec2f \<Rightarrow> Vec2f list \<Rightarrow> cfloat \<Rightarrow> cfloat
     \<Rightarrow> nat list \<Rightarrow> cfloat \<Rightarrow> cfloat" where
  "searchEnergy S frame p hostToFrame_affine rot x y [] energy = energy"
| "searchEnergy S frame p hostToFrame_affine rot x y (idx # idxs) energy =
     (let hitColor = getInterpolatedElement31 frame (x + fst (rot ! idx)) (y + snd (rot ! idx))
      in
      if \<not> isfinite hitColor
      then searchEnergy S frame p hostToFrame_affine rot x y idxs (energy + Fl 100000)
      else
        (let residual = hitColor - (fst hostToFrame_affine * (color p ! idx)
                                    + snd hostToFrame_affine);
             huber_weight = huberWeight S residual
         in searchEnergy S frame p hostToFrame_affine rot x y idxs
              (energy + huber_weight * residual * residual * (Fl 2 - huber_weight))))"

text \<open>The best match so far: \<^verbatim>\<open>errors\<close>, \<^verbatim>\<open>bestU\<close>, \<^verbatim>\<open>bestV\<close>, \<^verbatim>\<open>bestEnergy\<close>, \<^verbatim>\<open>bestIdx\<close>.\<close>

record best =
  errors :: "cfloat list"
  bestU :: cfloat
  bestV :: cfloat
  bestEnergy :: cfloat
  bestIdx :: int

text \<open>
  The loop \<^verbatim>\<open>for(int i=0;i<numSteps;i++)\<close> over the positions \<open>(x, y)\<close> of the search
  line; the list holds the values of \<open>i\<close> still to come.
\<close>

fun searchLoop ::
  "settings \<Rightarrow> FrameHessian \<Rightarrow> ImmaturePoint \<Rightarrow> Vec2f \<Rightarrow> Vec2f list \<Rightarrow> searchline
     \<Rightarrow> nat list \<Rightarrow> cfloat \<times> cfloat \<Rightarrow> best \<Rightarrow> best" where
  "searchLoop S frame p hostToFrame_affine rot l [] (x, y) b = b"
| "searchLoop S frame p hostToFrame_affine rot l (i # is) (x, y) b =
     (let energy = searchEnergy S frame p hostToFrame_affine rot x y [0..<patternNum S] (Fl 0);
          b1 = b\<lparr>errors := (errors b)[i := energy]\<rparr>;
          b2 = (if energy < bestEnergy b1
                then b1\<lparr>bestU := x, bestV := y, bestEnergy := energy, bestIdx := int i\<rparr>
                else b1)
      in searchLoop S frame p hostToFrame_affine rot l is (x + dx l, y + dy l) b2)"

text \<open>
  The array \<^verbatim>\<open>errors[100]\<close> starts uninitialised in the source; only entries that the
  search loop has written are read afterwards.
\<close>

definition traceOn_discreteSearch ::
  "settings \<Rightarrow> FrameHessian \<Rightarrow> ImmaturePoint \<Rightarrow> Vec2f \<Rightarrow> endpoints \<Rightarrow> searchline \<Rightarrow> best" where
  "traceOn_discreteSearch S frame p hostToFrame_affine e l =
     searchLoop S frame p hostToFrame_affine (rotatetPattern e) l [0..<nat (numSteps l)]
       (ptx l, pty l)
       \<lparr>errors = replicate 100 (Fl 0), bestU = Fl 0, bestV = Fl 0,
        bestEnergy = Fl 10000000000, bestIdx = - 1\<rparr>"

text \<open>The best score outside the radius \<^verbatim>\<open>setting_minTraceTestRadius\<close> around the best.\<close>

fun secondBestLoop :: "settings \<Rightarrow> best \<Rightarrow> nat list \<Rightarrow> cfloat \<Rightarrow> cfloat" where
  "secondBestLoop S b [] secondBest = secondBest"
| "secondBestLoop S b (i # is) secondBest =
     secondBestLoop S b is
       (if (int i < bestIdx b - setting_minTraceTestRadius S
            \<or> int i > bestIdx b + setting_minTraceTestRadius S)
           \<and> errors b ! i < secondBest
        then errors b ! i else secondBest)"

text \<open>The point after \<^verbatim>\<open>if(newQuality < quality || numSteps > 10) quality = newQuality;\<close>.\<close>

definition traceOn_quality :: "settings \<Rightarrow> ImmaturePoint \<Rightarrow> searchline \<Rightarrow> best \<Rightarrow> ImmaturePoint" where
  "traceOn_quality S p l b =
     (let secondBest = secondBestLoop S b [0..<nat (numSteps l)] (Fl 10000000000);
          newQuality = secondBest / bestEnergy b
      in if newQuality < quality p \<or> numSteps l > 10 then p\<lparr>quality := newQuality\<rparr> else p)"

subsection \<open>Gauss-Newton refinement\<close>

text \<open>
  One pass over the pattern at \<open>(bU, bV)\<close>, accumulating \<open>(H, b, energy)\<close>;
  \<open>None\<close> is the return of OOB from inside the loop.
\<close>

fun gnPattern ::
  "settings \<Rightarrow> FrameHessian \<Rightarrow> ImmaturePoint \<Rightarrow> Vec2f \<Rightarrow> Vec2f list \<Rightarrow> searchline
     \<Rightarrow> cfloat \<Rightarrow> cfloat \<Rightarrow> nat list \<Rightarrow> cfloat \<times> cfloat \<times> cfloat
     \<Rightarrow> (cfloat \<times> cfloat \<times> cfloat) option" where
  "gnPattern S frame p hostToFrame_affine rot l bU bV [] acc = Some acc"
| "gnPattern S frame p hostToFrame_affine rot l bU bV (idx # idxs) (H, b, energy) =
     (let posU = bU + fst (rot ! idx);
          posV = bV + snd (rot ! idx)
      in
      if posU < Fl 0 \<or> posV < Fl 0 \<or> posU \<ge> of_int_f (wG0 S - 1) \<or> posV \<ge> of_int_f (hG0 S - 1)
      then None
      else
        (let hitColor = getInterpolatedElement33 frame posU posV
         in
         if \<not> isfinite (v0 hitColor)
         then gnPattern S frame p hostToFrame_affine rot l bU bV idxs (H, b, energy + Fl 100000)
         else
           (let residual = v0 hitColor - (fst hostToFrame_affine * (color p ! idx)
                                          + snd hostToFrame_affine);
                dResdDist = dx l * v1 hitColor + dy l * v2 hitColor;
                huber_weight = huberWeight S residual
            in gnPattern S frame p hostToFrame_affine rot l bU bV idxs
                 (H + huber_weight * dResdDist * dResdDist,
                  b + huber_weight * residual * dResdDist,
                  energy + (weights p ! idx) * (weights p ! idx) * huber_weight
                           * residual * residual * (Fl 2 - huber_weight)))))"

text \<open>
  The state of the refinement: \<^verbatim>\<open>bestU\<close>, \<^verbatim>\<open>bestV\<close>, \<^verbatim>\<open>bestEnergy\<close> (here with the
  prefix \<open>gn_\<close>), \<^verbatim>\<open>uBak\<close>, \<^verbatim>\<open>vBak\<close>, \<^verbatim>\<open>stepBack\<close>; \<^verbatim>\<open>gnstepsize\<close> is the constant 1.
\<close>

record gn =
  gn_bestU :: cfloat
  gn_bestV :: cfloat
  gn_bestEnergy :: cfloat
  uBak :: cfloat
  vBak :: cfloat
  stepBack :: cfloat

text \<open>One iteration of the refinement after the pattern pass: step back, or step on.\<close>

definition gnStep :: "searchline \<Rightarrow> gn \<Rightarrow> cfloat \<times> cfloat \<times> cfloat \<Rightarrow> gn" where
  "gnStep l g Hbe =
     (case Hbe of (H, b, energy) \<Rightarrow>
        if energy > gn_bestEnergy g then
          (let stepBack' = stepBack g * Fl 0.5
           in g\<lparr>stepBack := stepBack',
                gn_bestU := uBak g + stepBack' * dx l,
                gn_bestV := vBak g + stepBack' * dy l\<rparr>)
        else
          (let step0 = - Fl 1 * b / H;
               step1 = (if step0 < Fl (- 0.5) then Fl (- 0.5)
                        else if step0 > Fl 0.5 then Fl 0.5 else step0);
               step = (if \<not> isfinite step1 then Fl 0 else step1)
           in g\<lparr>uBak := gn_bestU g, vBak := gn_bestV g, stepBack := step,
                gn_bestU := gn_bestU g + step * dx l,
                gn_bestV := gn_bestV g + step * dy l,
                gn_bestEnergy := energy\<rparr>))"

text \<open>
  The loop \<^verbatim>\<open>for(int it=0;it<setting_trace_GNIterations;it++)\<close>; the first argument
  counts the iterations that are left. \<open>Inl\<close> is the return of OOB, \<open>Inr\<close> the state
  when the loop ends or breaks.
\<close>

fun gnLoop ::
  "nat \<Rightarrow> settings \<Rightarrow> FrameHessian \<Rightarrow> ImmaturePoint \<Rightarrow> Vec2f \<Rightarrow> Vec2f list \<Rightarrow> searchline
     \<Rightarrow> gn \<Rightarrow> trace_return + gn" where
  "gnLoop 0 S frame p hostToFrame_affine rot l g = Inr g"
| "gnLoop (Suc n) S frame p hostToFrame_affine rot l g =
     (case gnPattern S frame p hostToFrame_affine rot l (gn_bestU g) (gn_bestV g)
             [0..<patternNum S] (Fl 1, Fl 0, Fl 0) of
        None \<Rightarrow> Inl (trace_fail IPS_OOB p)
      | Some Hbe \<Rightarrow>
          (let g' = gnStep l g Hbe
           in if \<bar>stepBack g'\<bar> < setting_trace_GNThreshold S then Inr g'
              else gnLoop n S frame p hostToFrame_affine rot l g'))"

definition traceOn_GN ::
  "settings \<Rightarrow> FrameHessian \<Rightarrow> ImmaturePoint \<Rightarrow> Vec2f \<Rightarrow> endpoints \<Rightarrow> searchline \<Rightarrow> best
     \<Rightarrow> trace_return + gn" where
  "traceOn_GN S frame p hostToFrame_affine e l b =
     gnLoop (nat (setting_trace_GNIterations S)) S frame p hostToFrame_affine
       (rotatetPattern e) l
       \<lparr>gn_bestU = bestU b, gn_bestV = bestV b,
        gn_bestEnergy = (if setting_trace_GNIterations S > 0 then Fl 100000 else bestEnergy b),
        uBak = bestU b, vBak = bestV b, stepBack = Fl 0\<rparr>"

text \<open>
  Everything of \<^verbatim>\<open>traceOn\<close> between the test of the stored status and the energy
  test: an early return, or the point with the quality of this search together with the
  locals that the last two steps read.
\<close>

definition traceOn_search ::
  "settings \<Rightarrow> ImmaturePoint \<Rightarrow> FrameHessian \<Rightarrow> Mat33f \<Rightarrow> Vec3f \<Rightarrow> Vec2f
     \<Rightarrow> trace_return + (ImmaturePoint \<times> endpoints \<times> searchline \<times> gn)" where
  "traceOn_search S p frame hostToFrame_KRKi hostToFrame_Kt hostToFrame_affine =
     (case traceOn_project S p hostToFrame_KRKi hostToFrame_Kt of
        Inl r \<Rightarrow> Inl r
      | Inr e \<Rightarrow>
          (case traceOn_errorBounds S p e of
             Inl r \<Rightarrow> Inl r
           | Inr l \<Rightarrow>
               (let b = traceOn_discreteSearch S frame p hostToFrame_affine e l;
                    p1 = traceOn_quality S p l b
                in
                (case traceOn_GN S frame p1 hostToFrame_affine e l b of
                   Inl r \<Rightarrow> Inl r
                 | Inr g \<Rightarrow> Inr (p1, e, l, g)))))"

subsection \<open>Outlier test and new interval\<close>

text \<open>
  The inverse depth at which the epipolar line passes through the horizontal
  position \<open>x\<close>, and through the vertical position \<open>y\<close>.
\<close>

definition idepthAtU :: "Vec3f \<Rightarrow> Vec3f \<Rightarrow> cfloat \<Rightarrow> cfloat" where
  "idepthAtU pr' hostToFrame_Kt x =
     (v2 pr' * x - v0 pr') / (v0 hostToFrame_Kt - v2 hostToFrame_Kt * x)"

definition idepthAtV :: "Vec3f \<Rightarrow> Vec3f \<Rightarrow> cfloat \<Rightarrow> cfloat" where
  "idepthAtV pr' hostToFrame_Kt y =
     (v2 pr' * y - v1 pr') / (v1 hostToFrame_Kt - v2 hostToFrame_Kt * y)"

text \<open>
  The values that the source assigns to \<^verbatim>\<open>idepth_min\<close> and \<^verbatim>\<open>idepth_max\<close> before it
  swaps them: the best pixel lifted back at \<open>- errorInPixel\<close> and at \<open>+ errorInPixel\<close>
  along the dominant axis.
\<close>

definition reliftInterval :: "Vec3f \<Rightarrow> endpoints \<Rightarrow> searchline \<Rightarrow> gn \<Rightarrow> cfloat \<times> cfloat" where
  "reliftInterval hostToFrame_Kt e l g =
     (if dx l * dx l > dy l * dy l
      then (idepthAtU (pr e) hostToFrame_Kt (gn_bestU g - errorInPixel l * dx l),
            idepthAtU (pr e) hostToFrame_Kt (gn_bestU g + errorInPixel l * dx l))
      else (idepthAtV (pr e) hostToFrame_Kt (gn_bestV g - errorInPixel l * dy l),
            idepthAtV (pr e) hostToFrame_Kt (gn_bestV g + errorInPixel l * dy l)))"

text \<open>
  The last step of \<^verbatim>\<open>traceOn\<close>: the new interval is stored, swapped when out of order,
  and then tested.
\<close>

definition traceOn_setInterval ::
  "ImmaturePoint \<Rightarrow> Vec3f \<Rightarrow> endpoints \<Rightarrow> searchline \<Rightarrow> gn \<Rightarrow> trace_return" where
  "traceOn_setInterval p hostToFrame_Kt e l g =
     (let lohi = reliftInterval hostToFrame_Kt e l g;
          p0 = p\<lparr>idepth_min := fst lohi, idepth_max := snd lohi\<rparr>;
          p1 = (if idepth_min p0 > idepth_max p0
                then p0\<lparr>idepth_min := idepth_max p0, idepth_max := idepth_min p0\<rparr>
                else p0)
      in
      if \<not> isfinite (idepth_min p1) \<or> \<not> isfinite (idepth_max p1) \<or> idepth_max p1 < Fl 0
      then trace_fail IPS_OUTLIER p1
      else (IPS_GOOD,
            p1\<lparr>lastTracePixelInterval := Fl 2 * errorInPixel l,
               lastTraceUV := (gn_bestU g, gn_bestV g),
               lastTraceStatus := IPS_GOOD\<rparr>))"

text \<open>
  The energy test: a best energy that is not below \<^verbatim>\<open>energyTH*setting_trace_extraSlackOnTH\<close>
  returns OUTLIER, or OOB when the stored status is already OUTLIER.
\<close>

definition traceOn_outlierGate ::
  "settings \<Rightarrow> ImmaturePoint \<Rightarrow> Vec3f \<Rightarrow> endpoints \<Rightarrow> searchline \<Rightarrow> gn \<Rightarrow> trace_return" where
  "traceOn_outlierGate S p hostToFrame_Kt e l g =
     (if \<not> (gn_bestEnergy g < energyTH p * setting_trace_extraSlackOnTH S) then
        (if lastTraceStatus p = IPS_OUTLIER then trace_fail IPS_OOB p
         else trace_fail IPS_OUTLIER p)
      else traceOn_setInterval p hostToFrame_Kt e l g)"

text \<open>
  \<^verbatim>\<open>ImmaturePoint::traceOn\<close>. The arguments \<^verbatim>\<open>HCalib\<close> and \<^verbatim>\<open>debugPrint\<close> are not
  read (the flag is overwritten with \<^verbatim>\<open>false\<close> on entry, which removes every print).
\<close>

definition traceOn ::
  "settings \<Rightarrow> ImmaturePoint \<Rightarrow> FrameHessian \<Rightarrow> Mat33f \<Rightarrow> Vec3f \<Rightarrow> Vec2f \<Rightarrow> trace_return" where
  "traceOn S p frame hostToFrame_KRKi hostToFrame_Kt hostToFrame_affine =
     (if lastTraceStatus p = IPS_OOB then (lastTraceStatus p, p)
      else
        (case traceOn_search S p frame hostToFrame_KRKi hostToFrame_Kt hostToFrame_affine of
           Inl r \<Rightarrow> r
         | Inr (p1, e, l, g) \<Rightarrow> traceOn_outlierGate S p1 hostToFrame_Kt e l g))"

section \<open>calcResidual\<close>





section \<open>The activation pass\<close>

subsection \<open>The minimum activation distance\<close>

text \<open>
  The first statements of \<^verbatim>\<open>FullSystem::activatePointsMT\<close>: the new value of
  \<^verbatim>\<open>currentMinActDist\<close> from the number of points \<^verbatim>\<open>ef->nPoints\<close> and the old value.
  The products \<^verbatim>\<open>setting_desiredPointDensity*0.66\<close> and so on are products in
  \<^verbatim>\<open>double\<close>, and \<^verbatim>\<open>currentMinActDist -= 0.8\<close> subtracts in \<^verbatim>\<open>double\<close> and stores a
  \<^verbatim>\<open>float\<close>: the three operations are those of the parameter \<open>R\<close>. The conversion of
  \<^verbatim>\<open>ef->nPoints\<close> is exact.
\<close>

definition adjustMinActDist :: "rounding \<Rightarrow> settings \<Rightarrow> int \<Rightarrow> cfloat \<Rightarrow> cfloat" where
  "adjustMinActDist R S nPoints currentMinActDist =
     (let D = setting_desiredPointDensity S;
          n = of_int_f nPoints;
          c1 = (if n < mulR R D (Fl 0.66) then subR R currentMinActDist (Fl 0.8)
                else currentMinActDist);
          c2 = (if n < mulR R D (Fl 0.8) then subR R c1 (Fl 0.5)
                else if n < mulR R D (Fl 0.9) then subR R c1 (Fl 0.2)
                else if n < D then subR R c1 (Fl 0.1)
                else c1);
          c3 = (if n > mulR R D (Fl 1.5) then addR R c2 (Fl 0.8) else c2);
          c4 = (if n > mulR R D (Fl 1.3) then addR R c3 (Fl 0.5) else c3);
          c5 = (if n > mulR R D (Fl 1.15) then addR R c4 (Fl 0.2) else c4);
          c6 = (if n > D then addR R c5 (Fl 0.1) else c5);
          c7 = (if c6 < Fl 0 then Fl 0 else c6);
          c8 = (if c7 > Fl 4 then Fl 4 else c7)
      in c8)"

subsection \<open>The scan over the immature points\<close>

text \<open>The local \<^verbatim>\<open>canActivate\<close>.\<close>

definition canActivate :: "settings \<Rightarrow> ImmaturePoint \<Rightarrow> bool" where
  "canActivate S immature_point =
     ((lastTraceStatus immature_point = IPS_GOOD
       \<or> lastTraceStatus immature_point = IPS_SKIPPED
       \<or> lastTraceStatus immature_point = IPS_BADCONDITION
       \<or> lastTraceStatus immature_point = IPS_OOB)
      \<and> lastTracePixelInterval immature_point < Fl 8
      \<and> quality immature_point > setting_minTraceQuality S
      \<and> (idepth_max immature_point + idepth_min immature_point) > Fl 0)"

text \<open>
  The state that the scan threads through its iterations: the array
  \<^verbatim>\<open>coarseDistanceMap->fwdWarpedIDDistFinal\<close>, as a function of the index, and the
  vector \<^verbatim>\<open>toOptimize\<close>. The method \<^verbatim>\<open>addIntoDistFinal\<close> of the distance map is
  declared outside the two source files and is a parameter.
\<close>

type_synonym distmap = "int \<Rightarrow> cfloat"
type_synonym addIntoDistFinal_fn = "int \<Rightarrow> int \<Rightarrow> distmap \<Rightarrow> distmap"

text \<open>
  The body of the loop over \<^verbatim>\<open>host->immaturePoints\<close> for the point at index \<open>i\<close>. The
  first component of the result is the entry \<^verbatim>\<open>host->immaturePoints[i]\<close> afterwards:
  \<open>None\<close> is \<^verbatim>\<open>nullptr\<close>, stored after the point has been deleted.
\<close>

definition activatePoint ::
  "addIntoDistFinal_fn \<Rightarrow> settings \<Rightarrow> cfloat \<Rightarrow> Mat33f \<Rightarrow> Vec3f \<Rightarrow> nat \<Rightarrow> ImmaturePoint
     \<Rightarrow> distmap \<times> ImmaturePoint list
     \<Rightarrow> ImmaturePoint option \<times> distmap \<times> ImmaturePoint list" where
  "activatePoint addIntoDistFinal S currentMinActDist KRKi Kt i ip st =
     (let immature_point = ip\<lparr>idxInImmaturePoints := i\<rparr>;
          fwdWarpedIDDistFinal = fst st;
          toOptimize = snd st
      in
      if \<not> isfinite (idepth_max immature_point) \<or> lastTraceStatus immature_point = IPS_OUTLIER
      then (None, fwdWarpedIDDistFinal, toOptimize)
      else if \<not> canActivate S immature_point then
        (if host_flaggedForMarginalization immature_point
            \<or> lastTraceStatus immature_point = IPS_OOB
         then (None, fwdWarpedIDDistFinal, toOptimize)
         else (Some immature_point, fwdWarpedIDDistFinal, toOptimize))
      else
        (let ptp = vec3_add (mat33_vec KRKi (ip_u immature_point, ip_v immature_point, Fl 1))
                     (vec3_scale Kt
                        (Fl 0.5 * (idepth_max immature_point + idepth_min immature_point)));
             u = to_int (v0 ptp / v2 ptp + Fl 0.5);
             v = to_int (v1 ptp / v2 ptp + Fl 0.5)
         in
         if u > 0 \<and> v > 0 \<and> u < wG1 S \<and> v < hG1 S then
           (let dist' = fwdWarpedIDDistFinal (u + wG1 S * v) + (v0 ptp - floorf (v0 ptp))
            in
            if dist' \<ge> currentMinActDist * point_type immature_point
            then (Some immature_point, addIntoDistFinal u v fwdWarpedIDDistFinal,
                  toOptimize @ [immature_point])
            else (Some immature_point, fwdWarpedIDDistFinal, toOptimize))
         else (None, fwdWarpedIDDistFinal, toOptimize)))"

text \<open>The loop \<^verbatim>\<open>for(unsigned int i=0;i<host->immaturePoints.size();i++)\<close>, from index \<open>i\<close> on.\<close>

fun scanImmaturePoints ::
  "addIntoDistFinal_fn \<Rightarrow> settings \<Rightarrow> cfloat \<Rightarrow> Mat33f \<Rightarrow> Vec3f \<Rightarrow> nat \<Rightarrow> ImmaturePoint list
     \<Rightarrow> distmap \<times> ImmaturePoint list
     \<Rightarrow> ImmaturePoint option list \<times> distmap \<times> ImmaturePoint list" where
  "scanImmaturePoints addIntoDistFinal S currentMinActDist KRKi Kt i [] st = ([], st)"
| "scanImmaturePoints addIntoDistFinal S currentMinActDist KRKi Kt i (ip # ips) st =
     (case activatePoint addIntoDistFinal S currentMinActDist KRKi Kt i ip st of
        (slot, st') \<Rightarrow>
          (case scanImmaturePoints addIntoDistFinal S currentMinActDist KRKi Kt (Suc i) ips st' of
             (slots, st'') \<Rightarrow> (slot # slots, st'')))"

text \<open>
  A keyframe of the window, as far as the scan reads it: its immature points, and the
  matrices \<^verbatim>\<open>KRKi\<close> and \<^verbatim>\<open>Kt\<close> that the source computes for it from the poses and
  the calibration of the distance map (pose algebra that is outside the two files).
\<close>

record HostFrame =
  immaturePoints :: "ImmaturePoint list"
  fhToNew_KRKi :: Mat33f
  fhToNew_Kt :: Vec3f

text \<open>
  The loop \<^verbatim>\<open>for(FrameHessian* host : frameHessians)\<close>; \<open>n\<close> counts the frames still to
  come, so that the last one (\<open>n = 1\<close>) is \<^verbatim>\<open>frameHessians.back()\<close>, which the loop
  skips. The result holds, per frame, the entries of its \<^verbatim>\<open>immaturePoints\<close>.
\<close>

fun scanFrames ::
  "addIntoDistFinal_fn \<Rightarrow> settings \<Rightarrow> cfloat \<Rightarrow> HostFrame list
     \<Rightarrow> distmap \<times> ImmaturePoint list
     \<Rightarrow> ImmaturePoint option list list \<times> distmap \<times> ImmaturePoint list" where
  "scanFrames addIntoDistFinal S currentMinActDist [] st = ([], st)"
| "scanFrames addIntoDistFinal S currentMinActDist [latest] st =
     ([map Some (immaturePoints latest)], st)"
| "scanFrames addIntoDistFinal S currentMinActDist (host # hosts) st =
     (case scanImmaturePoints addIntoDistFinal S currentMinActDist
             (fhToNew_KRKi host) (fhToNew_Kt host) 0 (immaturePoints host) st of
        (slots, st') \<Rightarrow>
          (case scanFrames addIntoDistFinal S currentMinActDist hosts st' of
             (rest, st'') \<Rightarrow> (slots # rest, st'')))"

text \<open>
  \<^verbatim>\<open>FullSystem::activatePointsMT\<close> up to the end of the scan: the new
  \<^verbatim>\<open>currentMinActDist\<close>, the entries of every frame's \<^verbatim>\<open>immaturePoints\<close>, the distance
  map and \<^verbatim>\<open>toOptimize\<close>. \<open>distMap\<close> is the map that \<^verbatim>\<open>makeDistanceMap\<close> has built.
  The optimisation of the queued points and the compaction of the vectors follow in the
  source and are not modelled.
\<close>

definition activatePointsMT_scan ::
  "rounding \<Rightarrow> addIntoDistFinal_fn \<Rightarrow> settings \<Rightarrow> int \<Rightarrow> cfloat \<Rightarrow> distmap \<Rightarrow> HostFrame list
     \<Rightarrow> cfloat \<times> ImmaturePoint option list list \<times> distmap \<times> ImmaturePoint list" where
  "activatePointsMT_scan R addIntoDistFinal S nPoints currentMinActDist distMap frameHessians =
     (let currentMinActDist' = adjustMinActDist R S nPoints currentMinActDist
      in (currentMinActDist',
          scanFrames addIntoDistFinal S currentMinActDist' frameHessians (distMap, [])))"

section \<open>makeKeyFrame: the test for a failed initialisation\<close>

text \<open>
  The block of \<^verbatim>\<open>FullSystem::makeKeyFrame\<close> after the optimisation: the new value of
  \<^verbatim>\<open>initFailed\<close> from \<^verbatim>\<open>allKeyFramesHistory.size()\<close>, the \<^verbatim>\<open>rmse\<close> that \<^verbatim>\<open>optimize\<close>
  returned, and the old value. The products \<^verbatim>\<open>20*benchmark_initializerSlackFactor\<close>
  and so on are the rounded products of the parameter \<open>R\<close>.
\<close>

definition makeKeyFrame_initFailed :: "rounding \<Rightarrow> settings \<Rightarrow> nat \<Rightarrow> cfloat \<Rightarrow> bool \<Rightarrow> bool" where
  "makeKeyFrame_initFailed R S size' rmse initFailed =
     (if size' \<le> 4 then
        (let f1 = (if size' = 2 \<and> rmse > mulR R (of_int_f 20) (benchmark_initializerSlackFactor S)
                   then True else initFailed);
             f2 = (if size' = 3 \<and> rmse > mulR R (of_int_f 13) (benchmark_initializerSlackFactor S)
                   then True else f1);
             f3 = (if size' = 4 \<and> rmse > mulR R (of_int_f 9) (benchmark_initializerSlackFactor S)
                   then True else f2)
         in f3)
      else initFailed)"

section \<open>setGammaFunction\<close>

text \<open>The two tables of the calibration \<^verbatim>\<open>Hcalib\<close>, each a \<^verbatim>\<open>float[256]\<close>.\<close>

record CalibHessian =
  Binv :: "cfloat list"
  B :: "cfloat list"

text \<open>
  The inner loop \<^verbatim>\<open>for(int s=1;s<255;s++)\<close> for one \<open>i\<close>, over the values of \<open>s\<close> still
  to come: the table \<^verbatim>\<open>Hcalib.B\<close> after the first \<open>s\<close> that passes the test (the
  \<^verbatim>\<open>break\<close>), or unchanged when none does.
\<close>

fun gammaInner :: "cfloat list \<Rightarrow> int \<Rightarrow> nat list \<Rightarrow> cfloat list \<Rightarrow> cfloat list" where
  "gammaInner BInv i [] tableB = tableB"
| "gammaInner BInv i (s # ss) tableB =
     (if BInv ! s \<le> of_int_f i \<and> BInv ! (s + 1) \<ge> of_int_f i
      then tableB[nat i := of_int_f (int s)
                           + (of_int_f i - BInv ! s) / (BInv ! (s + 1) - BInv ! s)]
      else gammaInner BInv i ss tableB)"

text \<open>The outer loop \<^verbatim>\<open>for(int i=1;i<255;i++)\<close>.\<close>

fun gammaOuter :: "cfloat list \<Rightarrow> nat list \<Rightarrow> cfloat list \<Rightarrow> cfloat list" where
  "gammaOuter BInv [] tableB = tableB"
| "gammaOuter BInv (i # is) tableB =
     gammaOuter BInv is (gammaInner BInv (int i) [1..<255] tableB)"

text \<open>
  \<^verbatim>\<open>FullSystem::setGammaFunction\<close>; \<open>None\<close> is the null pointer. \<^verbatim>\<open>memcpy\<close> copies
  256 floats from the caller's table.
\<close>

definition setGammaFunction :: "cfloat list option \<Rightarrow> CalibHessian \<Rightarrow> CalibHessian" where
  "setGammaFunction BInv' Hcalib =
     (case BInv' of
        None \<Rightarrow> Hcalib
      | Some BInv \<Rightarrow>
          (let H1 = Hcalib\<lparr>Binv := take 256 BInv\<rparr>;
               H2 = H1\<lparr>B := gammaOuter BInv [1..<255] (B H1)\<rparr>;
               H3 = H2\<lparr>B := (B H2)[0 := Fl 0]\<rparr>
           in H3\<lparr>B := (B H3)[255 := Fl 255]\<rparr>))"

section \<open>initializeFromInitializer\<close>


text \<open>
  Modelled from the spec: the class \<^verbatim>\<open>PointHessian\<close> is declared outside the two source
  files. An active point carries its inverse depth, set by \<^verbatim>\<open>setIdepthScaled\<close>, the
  flag \<^verbatim>\<open>hasDepthPrior\<close>, its status and the energy threshold that its constructor
  takes over from the immature point; the constructor is a parameter.
\<close>

datatype PtStatus = ACTIVE | INACTIVE | OUTLIER | OOB | MARGINALIZED







section \<open>Auxiliary definitions for the statements\<close>

text \<open>
  The field \<^verbatim>\<open>currentMinActDist\<close> after a sequence of activation passes, each given by
  the settings and the number of points \<^verbatim>\<open>ef->nPoints\<close> it sees. The constructor of
  \<^verbatim>\<open>FullSystem\<close> sets the field to 2, and \<^verbatim>\<open>activatePointsMT\<close> is the only function
  that writes it afterwards.
\<close>

definition minActDist_after :: "rounding \<Rightarrow> (settings \<times> int) list \<Rightarrow> cfloat" where
  "minActDist_after R passes =
     foldl (\<lambda>c pass. adjustMinActDist R (fst pass) (snd pass) c) (Fl 2) passes"

text \<open>What the scan establishes of every point before it queues it in \<^verbatim>\<open>toOptimize\<close>.\<close>

definition queued_ok :: "settings \<Rightarrow> ImmaturePoint \<Rightarrow> bool" where
  "queued_ok S q =
     (canActivate S q \<and> isfinite (idepth_max q) \<and> lastTraceStatus q \<noteq> IPS_OUTLIER)"

section \<open>Example inputs\<close>

text \<open>
  Concrete inputs on which the functions are evaluated below. The settings take the
  values that the comments of the source give as defaults (step size 1, three
  Gauss-Newton iterations, test radius 2, slack 1.2 on an energy threshold of
  \<open>12 \<sdot> 12\<close> per pattern pixel) and the eight-pixel pattern; the image is 640 by 480.
\<close>

definition ex_settings :: settings where
  "ex_settings =
     \<lparr>patternP = [(0, - 2), (- 1, - 1), (1, - 1), (- 2, 0), (0, 0), (2, 0), (- 1, 1), (0, 2)],
      setting_outlierTH = Fl 144, setting_outlierTHSumComponent = Fl 2500,
      setting_overallEnergyTHWeight = Fl 1, setting_huberTH = Fl 9,
      setting_maxPixSearch = Fl 0.027, setting_trace_stepsize = Fl 1,
      setting_trace_slackInterval = Fl 1.5, setting_trace_minImprovementFactor = Fl 2,
      setting_trace_GNIterations = 3, setting_trace_GNThreshold = Fl 0.1,
      setting_trace_extraSlackOnTH = Fl 1.2, setting_minTraceTestRadius = 2,
      setting_minTraceQuality = Fl 3, setting_desiredPointDensity = Fl 2000,
      benchmark_initializerSlackFactor = Fl 1,
      wG0 = 640, hG0 = 480, wG1 = 320, hG1 = 240\<rparr>"

text \<open>
  Two roundings: the one that does not round, and one that rounds every result down to a
  multiple of \<open>1/8\<close>.
\<close>

definition ex_exact :: rounding where
  "ex_exact = \<lparr>r_mul = (\<lambda>x y. x * y), r_add = (\<lambda>x y. x + y), r_sub = (\<lambda>x y. x - y)\<rparr>"

definition ex_eighths :: rounding where
  "ex_eighths =
     \<lparr>r_mul = (\<lambda>x y. of_int \<lfloor>x * y * 8\<rfloor> / 8), r_add = (\<lambda>x y. of_int \<lfloor>(x + y) * 8\<rfloor> / 8),
      r_sub = (\<lambda>x y. of_int \<lfloor>(x - y) * 8\<rfloor> / 8)\<rparr>"

text \<open>A frame of constant intensity \<open>c\<close>, with gradient \<open>(gx, 0)\<close> everywhere.\<close>

definition flat_frame :: "real \<Rightarrow> cfloat \<Rightarrow> FrameHessian" where
  "flat_frame c gx =
     \<lparr>getInterpolatedElement31 = (\<lambda>x y. Fl c),
      getInterpolatedElement33 = (\<lambda>x y. (Fl c, gx, Fl 0)),
      getInterpolatedElement33BiLin = (\<lambda>x y. (Fl c, gx, Fl 0))\<rparr>"

definition ident33 :: Mat33f where
  "ident33 = ((Fl 1, Fl 0, Fl 0), (Fl 0, Fl 1, Fl 0), (Fl 0, Fl 0, Fl 1))"

text \<open>
  An immature point at pixel \<open>(50, 50)\<close> with reference colour 100 on every pattern
  pixel, an image gradient along x only, the interval \<open>[lo, hi]\<close> and the stored status
  \<open>st\<close>.
\<close>

definition ex_point :: "real \<Rightarrow> real \<Rightarrow> ImmaturePointStatus \<Rightarrow> ImmaturePoint" where
  "ex_point lo hi st =
     \<lparr>ip_u = Fl 50, ip_v = Fl 50, color = replicate 8 (Fl 100), weights = replicate 8 (Fl 1),
      gradH = ((Fl 1, Fl 0), (Fl 0, Fl 0)), point_type = Fl 1, energyTH = Fl 1152,
      idepth_min = Fl lo, idepth_max = Fl hi, quality = Fl 10000, lastTraceStatus = st,
      lastTraceUV = (Fl (- 1), Fl (- 1)), lastTracePixelInterval = Fl 0,
      idxInImmaturePoints = 0, host_flaggedForMarginalization = False\<rparr>"

text \<open>A window of two keyframes; the first hosts an outlier and a point never traced.\<close>

definition ex_frames :: "HostFrame list" where
  "ex_frames =
     [\<lparr>immaturePoints = [ex_point 0 3 IPS_OUTLIER, ex_point 0 3 IPS_UNINITIALIZED],
       fhToNew_KRKi = ident33, fhToNew_Kt = (Fl 1, Fl 0, Fl 0)\<rparr>,
      \<lparr>immaturePoints = [], fhToNew_KRKi = ident33, fhToNew_Kt = (Fl 0, Fl 0, Fl 0)\<rparr>]"

text \<open>The identity as inverse gamma table, and a calibration with two tables of zeros.\<close>

definition ex_BInv :: "cfloat list" where
  "ex_BInv = map (\<lambda>k. Fl (real k)) [0..<256]"

definition ex_Hcalib :: CalibHessian where
  "ex_Hcalib = \<lparr>Binv = replicate 256 (Fl 0), B = replicate 256 (Fl 0)\<rparr>"





text \<open>
  The trace of a point against a flat frame of intensity \<open>c\<close>, under identity rotation,
  a baseline \<open>(t, 0, 0)\<close> and the identity brightness transfer; and the part of that
  trace up to the energy test.
\<close>

definition ex_trace :: "ImmaturePoint \<Rightarrow> real \<Rightarrow> real \<Rightarrow> trace_return" where
  "ex_trace p c t =
     traceOn ex_settings p (flat_frame c (Fl 0)) ident33 (Fl t, Fl 0, Fl 0) (Fl 1, Fl 0)"

definition ex_search ::
  "ImmaturePoint \<Rightarrow> real \<Rightarrow> real \<Rightarrow> trace_return + (ImmaturePoint \<times> endpoints \<times> searchline \<times> gn)" where
  "ex_search p c t =
     traceOn_search ex_settings p (flat_frame c (Fl 0)) ident33 (Fl t, Fl 0, Fl 0) (Fl 1, Fl 0)"

section \<open>Facts about single-precision values\<close>


lemma float_lt_le: "(a::cfloat) < b \<Longrightarrow> a \<le> b"
  by (cases a; cases b) simp_all

lemma float_not_gt_le: "isfinite a \<Longrightarrow> isfinite b \<Longrightarrow> \<not> a > b \<Longrightarrow> a \<le> b"
  by (cases a; cases b) simp_all

lemma float_not_lt_ge: "isfinite a \<Longrightarrow> \<not> a < Fl 0 \<Longrightarrow> Fl 0 \<le> a"
  by (cases a) simp_all

lemma add_Fl_0 [simp]: "a + Fl 0 = a"
  by (cases a) simp_all

lemma add_Fl_not_NaN: "a \<noteq> NaN \<Longrightarrow> a + Fl y \<noteq> NaN"
  by (cases a) simp_all

lemma sub_Fl_not_NaN: "a \<noteq> NaN \<Longrightarrow> a - Fl y \<noteq> NaN"
  by (cases a) (simp_all add: minus_cfloat_def)

section \<open>Evaluation on the example inputs\<close>

lemma upt_0_4: "[0..<4] = [0, 1, 2, 3]"
  by code_simp

lemma upt_0_8: "[0..<8] = [0, 1, 2, 3, 4, 5, 6, 7]"
  by code_simp

lemma gnLoop_numeral:
  "gnLoop (numeral k) S frame p aff rot l g =
     (case gnPattern S frame p aff rot l (gn_bestU g) (gn_bestV g)
             [0..<patternNum S] (Fl 1, Fl 0, Fl 0) of
        None \<Rightarrow> Inl (trace_fail IPS_OOB p)
      | Some Hbe \<Rightarrow>
          (let g' = gnStep l g Hbe
           in if \<bar>stepBack g'\<bar> < setting_trace_GNThreshold S then Inr g'
              else gnLoop (pred_numeral k) S frame p aff rot l g'))"
  by (simp only: numeral_eq_Suc gnLoop.simps)

lemma ex_settings_simps:
  "patternP ex_settings = [(0, - 2), (- 1, - 1), (1, - 1), (- 2, 0), (0, 0), (2, 0), (- 1, 1), (0, 2)]"
  "setting_outlierTH ex_settings = Fl 144"
  "setting_outlierTHSumComponent ex_settings = Fl 2500"
  "setting_overallEnergyTHWeight ex_settings = Fl 1"
  "setting_huberTH ex_settings = Fl 9"
  "setting_maxPixSearch ex_settings = Fl 0.027"
  "setting_trace_stepsize ex_settings = Fl 1"
  "setting_trace_slackInterval ex_settings = Fl 1.5"
  "setting_trace_minImprovementFactor ex_settings = Fl 2"
  "setting_trace_GNIterations ex_settings = 3"
  "setting_trace_GNThreshold ex_settings = Fl 0.1"
  "setting_trace_extraSlackOnTH ex_settings = Fl 1.2"
  "setting_minTraceTestRadius ex_settings = 2"
  "setting_minTraceQuality ex_settings = Fl 3"
  "setting_desiredPointDensity ex_settings = Fl 2000"
  "benchmark_initializerSlackFactor ex_settings = Fl 1"
  "wG0 ex_settings = 640" "hG0 ex_settings = 480"
  "wG1 ex_settings = 320" "hG1 ex_settings = 240"
  by (simp_all add: ex_settings_def)

lemma ex_point_simps:
  "ip_u (ex_point lo hi st) = Fl 50" "ip_v (ex_point lo hi st) = Fl 50"
  "color (ex_point lo hi st) = replicate 8 (Fl 100)"
  "weights (ex_point lo hi st) = replicate 8 (Fl 1)"
  "gradH (ex_point lo hi st) = ((Fl 1, Fl 0), (Fl 0, Fl 0))"
  "point_type (ex_point lo hi st) = Fl 1"
  "energyTH (ex_point lo hi st) = Fl 1152"
  "idepth_min (ex_point lo hi st) = Fl lo" "idepth_max (ex_point lo hi st) = Fl hi"
  "quality (ex_point lo hi st) = Fl 10000" "lastTraceStatus (ex_point lo hi st) = st"
  "lastTracePixelInterval (ex_point lo hi st) = Fl 0"
  "host_flaggedForMarginalization (ex_point lo hi st) = False"
  by (simp_all add: ex_point_def)

lemma flat_frame_simps:
  "getInterpolatedElement31 (flat_frame c gx) x y = Fl c"
  "getInterpolatedElement33 (flat_frame c gx) x y = (Fl c, gx, Fl 0)"
  "getInterpolatedElement33BiLin (flat_frame c gx) x y = (Fl c, gx, Fl 0)"
  by (simp_all add: flat_frame_def)

lemmas trace_eval =
  ex_trace_def ex_search_def
  traceOn_def traceOn_search_def traceOn_project_def traceOn_errorBounds_def
  traceOn_discreteSearch_def traceOn_quality_def traceOn_GN_def traceOn_outlierGate_def
  traceOn_setInterval_def reliftInterval_def idepthAtU_def idepthAtV_def gnStep_def
  huberWeight_def endpointDist_def ptpAt_def pixelOf_def traceBounds_def rotatePattern_def
  inBounds_def trace_fail_def patternNum_def of_int_f_def minus_cfloat_def Let_def
  ex_settings_simps ex_point_simps flat_frame_simps ident33_def upt_0_4 upt_0_8 gnLoop_numeral

text \<open>
  A point with interval \<open>[0, 3]\<close> against a frame of its own colour: the search runs
  over four steps from pixel 50, the best match is the first one, and the energy is 0.
\<close>

lemma ex_search_match:
  "\<exists>e l g. ex_search (ex_point 0 3 st) 100 1 = Inr (ex_point 0 3 st, e, l, g)
     \<and> errorInPixel l = Fl 0.4 \<and> gn_bestU g = Fl 50 \<and> gn_bestV g = Fl 50
     \<and> gn_bestEnergy g = Fl 0
     \<and> reliftInterval (Fl 1, Fl 0, Fl 0) e l g = (Fl (- 0.4), Fl 0.4)"
  by (simp add: trace_eval cong: let_weak_cong)

lemma ex_trace_match:
  "st \<noteq> IPS_OOB \<Longrightarrow>
   ex_trace (ex_point 0 3 st) 100 1 =
     (IPS_GOOD, (ex_point 0 3 st)\<lparr>idepth_min := Fl (- 0.4), idepth_max := Fl 0.4,
        lastTracePixelInterval := Fl 0.8, lastTraceUV := (Fl 50, Fl 50),
        lastTraceStatus := IPS_GOOD\<rparr>)"
  by (simp add: trace_eval cong: let_weak_cong)

text \<open>
  The same with the interval \<open>[0.0005, 3.0005]\<close>: the lower endpoint projects to
  \<open>50.0005\<close>, the search starts half a pixel before it, and the best pixel lifted back
  at \<open>\<plusminus> 0.4\<close> gives a negative interval.
\<close>

lemma ex_search_shifted:
  "\<exists>e l g. ex_search (ex_point 0.0005 3.0005 st) 100 1 = Inr (ex_point 0.0005 3.0005 st, e, l, g)
     \<and> errorInPixel l = Fl 0.4 \<and> gn_bestU g = Fl 49.5005 \<and> gn_bestEnergy g = Fl 0
     \<and> reliftInterval (Fl 1, Fl 0, Fl 0) e l g = (Fl (- 0.8995), Fl (- 0.0995))"
  by (simp add: trace_eval cong: let_weak_cong)

lemma ex_trace_shifted:
  "st \<noteq> IPS_OOB \<Longrightarrow>
   ex_trace (ex_point 0.0005 3.0005 st) 100 1 =
     (IPS_OUTLIER, (ex_point 0.0005 3.0005 st)\<lparr>idepth_min := Fl (- 0.8995),
        idepth_max := Fl (- 0.0995), lastTraceUV := (Fl (- 1), Fl (- 1)),
        lastTracePixelInterval := Fl 0, lastTraceStatus := IPS_OUTLIER\<rparr>)"
  by (simp add: trace_eval cong: let_weak_cong)

text \<open>Against a frame of intensity 200 every position has the energy 13752.\<close>

lemma ex_search_mismatch:
  "\<exists>e l g. ex_search (ex_point 0.0005 3.0005 st) 200 1
             = Inr ((ex_point 0.0005 3.0005 st)\<lparr>quality := Fl 1\<rparr>, e, l, g)
     \<and> gn_bestEnergy g = Fl 13752"
  by (simp add: trace_eval cong: let_weak_cong)

lemma ex_trace_mismatch:
  "st \<noteq> IPS_OOB \<Longrightarrow> st \<noteq> IPS_OUTLIER \<Longrightarrow>
   ex_trace (ex_point 0.0005 3.0005 st) 200 1 =
     (IPS_OUTLIER, (ex_point 0.0005 3.0005 st)\<lparr>quality := Fl 1,
        lastTraceUV := (Fl (- 1), Fl (- 1)), lastTracePixelInterval := Fl 0,
        lastTraceStatus := IPS_OUTLIER\<rparr>)"
  by (simp add: trace_eval cong: let_weak_cong)

section \<open>The returns of traceOn\<close>

lemma trace_fail_simps [simp]:
  "fst (trace_fail st p) = st"
  "lastTraceStatus (snd (trace_fail st p)) = st"
  "idepth_min (snd (trace_fail st p)) = idepth_min p"
  "idepth_max (snd (trace_fail st p)) = idepth_max p"
  "lastTracePixelInterval (snd (trace_fail st p)) = Fl 0"
  "lastTraceUV (snd (trace_fail st p)) = (Fl (- 1), Fl (- 1))"
  by (simp_all add: trace_fail_def)

lemma traceOn_project_Inl:
  assumes "traceOn_project S p KRKi Kt = Inl r"
  shows "(fst r = IPS_OOB \<or> fst r = IPS_SKIPPED) \<and> lastTraceStatus (snd r) = fst r
         \<and> idepth_min (snd r) = idepth_min p \<and> idepth_max (snd r) = idepth_max p"
  using assms
  by (auto simp: traceOn_project_def Let_def split: if_splits sum.splits)

lemma traceOn_errorBounds_Inl:
  assumes "traceOn_errorBounds S p e = Inl r"
  shows "(fst r = IPS_OOB \<or> fst r = IPS_BADCONDITION) \<and> lastTraceStatus (snd r) = fst r
         \<and> idepth_min (snd r) = idepth_min p \<and> idepth_max (snd r) = idepth_max p"
  using assms
  by (auto simp: traceOn_errorBounds_def Let_def split: if_splits)

lemma gnLoop_Inl:
  "gnLoop n S frame p aff rot l g = Inl r \<Longrightarrow> r = trace_fail IPS_OOB p"
  by (induction n arbitrary: g) (auto simp: Let_def split: option.splits if_splits)

lemma traceOn_quality_fields [simp]:
  "lastTraceStatus (traceOn_quality S p l b) = lastTraceStatus p"
  "energyTH (traceOn_quality S p l b) = energyTH p"
  "idepth_min (traceOn_quality S p l b) = idepth_min p"
  "idepth_max (traceOn_quality S p l b) = idepth_max p"
  by (simp_all add: traceOn_quality_def Let_def)

text \<open>An early return is OOB, SKIPPED or BADCONDITION, and leaves the interval alone.\<close>

lemma traceOn_search_Inl:
  assumes "traceOn_search S p frame KRKi Kt aff = Inl r"
  shows "(fst r = IPS_OOB \<or> fst r = IPS_SKIPPED \<or> fst r = IPS_BADCONDITION)
         \<and> lastTraceStatus (snd r) = fst r
         \<and> idepth_min (snd r) = idepth_min p \<and> idepth_max (snd r) = idepth_max p"
  using assms
  by (auto simp: traceOn_search_def traceOn_GN_def Let_def split: sum.splits
      dest!: traceOn_project_Inl traceOn_errorBounds_Inl gnLoop_Inl)

lemma traceOn_search_Inr:
  assumes "traceOn_search S p frame KRKi Kt aff = Inr (p1, e, l, g)"
  shows "lastTraceStatus p1 = lastTraceStatus p \<and> energyTH p1 = energyTH p"
  using assms
  by (auto simp: traceOn_search_def Let_def split: sum.splits)

lemma traceOn_reach:
  assumes "lastTraceStatus p \<noteq> IPS_OOB"
    and "traceOn_search S p frame KRKi Kt aff = Inr (p1, e, l, g)"
  shows "traceOn S p frame KRKi Kt aff = traceOn_outlierGate S p1 Kt e l g"
  using assms by (simp add: traceOn_def)

lemma traceOn_setInterval_status:
  "lastTraceStatus (snd (traceOn_setInterval p Kt e l g)) = fst (traceOn_setInterval p Kt e l g)"
  by (simp add: traceOn_setInterval_def Let_def)

lemma traceOn_setInterval_GOOD:
  assumes "traceOn_setInterval p Kt e l g = (IPS_GOOD, p')"
  shows "isfinite (idepth_min p') \<and> isfinite (idepth_max p') \<and> idepth_min p' \<le> idepth_max p'
         \<and> Fl 0 \<le> idepth_max p'
         \<and> lastTracePixelInterval p' = Fl 2 * errorInPixel l
         \<and> lastTraceUV p' = (gn_bestU g, gn_bestV g)"
  using assms
  by (auto simp: traceOn_setInterval_def Let_def trace_fail_def split: if_splits
      intro: float_not_gt_le float_not_lt_ge float_lt_le)

lemma traceOn_outlierGate_status:
  "lastTraceStatus (snd (traceOn_outlierGate S p Kt e l g)) = fst (traceOn_outlierGate S p Kt e l g)"
  by (simp add: traceOn_outlierGate_def traceOn_setInterval_status)

lemma traceOn_outlierGate_GOOD:
  assumes "traceOn_outlierGate S p Kt e l g = (IPS_GOOD, p')"
  shows "traceOn_setInterval p Kt e l g = (IPS_GOOD, p')"
  using assms by (auto simp: traceOn_outlierGate_def trace_fail_def split: if_splits)

text \<open>
  C9. Whenever \<^verbatim>\<open>traceOn\<close> returns GOOD, the interval it leaves has finite endpoints
  with \<open>idepth_min \<le> idepth_max\<close> and \<open>idepth_max \<ge> 0\<close>, the stored pixel interval is
  \<open>2 \<sdot> errorInPixel\<close> and the stored pixel is the best match of the search; and every
  return stores the status it returns, so that no other return leaves the stored status
  GOOD.
\<close>

theorem traceOn_GOOD:
  assumes "traceOn S p frame KRKi Kt aff = (st, p')"
  shows "lastTraceStatus p' = st \<and>
         (st = IPS_GOOD \<longrightarrow>
            isfinite (idepth_min p') \<and> isfinite (idepth_max p')
            \<and> idepth_min p' \<le> idepth_max p' \<and> Fl 0 \<le> idepth_max p'
            \<and> (\<exists>p1 e l g. traceOn_search S p frame KRKi Kt aff = Inr (p1, e, l, g)
                  \<and> lastTracePixelInterval p' = Fl 2 * errorInPixel l
                  \<and> lastTraceUV p' = (gn_bestU g, gn_bestV g)))"
proof (cases "lastTraceStatus p = IPS_OOB")
  case True
  with assms show ?thesis by (auto simp: traceOn_def)
next
  case notOOB: False
  show ?thesis
  proof (cases "traceOn_search S p frame KRKi Kt aff")
    case (Inl r)
    with assms notOOB have "r = (st, p')" by (simp add: traceOn_def)
    with traceOn_search_Inl [OF Inl] show ?thesis by auto
  next
    case (Inr x)
    obtain p1 e l g where x: "x = (p1, e, l, g)" by (cases x) auto
    from assms notOOB Inr x have gate: "traceOn_outlierGate S p1 Kt e l g = (st, p')"
      by (simp add: traceOn_def)
    have st: "lastTraceStatus p' = st"
      using traceOn_outlierGate_status [of S p1 Kt e l g] gate by simp
    show ?thesis
    proof (cases "st = IPS_GOOD")
      case True
      with gate have "traceOn_setInterval p1 Kt e l g = (IPS_GOOD, p')"
        by (simp add: traceOn_outlierGate_GOOD)
      from traceOn_setInterval_GOOD [OF this] Inr x st True show ?thesis by auto
    next
      case False
      with st show ?thesis by simp
    qed
  qed
qed

text \<open>
  The statement at the point with interval \<open>[0, 3]\<close> traced against a frame of its own
  colour: the call returns GOOD with the interval \<open>[- 0.4, 0.4]\<close>.
\<close>

theorem traceOn_GOOD_witness:
  "fst (ex_trace (ex_point 0 3 IPS_UNINITIALIZED) 100 1) = IPS_GOOD
   \<and> lastTraceStatus (snd (ex_trace (ex_point 0 3 IPS_UNINITIALIZED) 100 1)) = IPS_GOOD
   \<and> isfinite (idepth_min (snd (ex_trace (ex_point 0 3 IPS_UNINITIALIZED) 100 1)))
   \<and> isfinite (idepth_max (snd (ex_trace (ex_point 0 3 IPS_UNINITIALIZED) 100 1)))
   \<and> idepth_min (snd (ex_trace (ex_point 0 3 IPS_UNINITIALIZED) 100 1))
       \<le> idepth_max (snd (ex_trace (ex_point 0 3 IPS_UNINITIALIZED) 100 1))
   \<and> Fl 0 \<le> idepth_max (snd (ex_trace (ex_point 0 3 IPS_UNINITIALIZED) 100 1))"
proof -
  have ev: "fst (ex_trace (ex_point 0 3 IPS_UNINITIALIZED) 100 1) = IPS_GOOD"
    using ex_trace_match [of IPS_UNINITIALIZED] by simp
  have "traceOn ex_settings (ex_point 0 3 IPS_UNINITIALIZED) (flat_frame 100 (Fl 0)) ident33
          (Fl 1, Fl 0, Fl 0) (Fl 1, Fl 0)
        = (fst (ex_trace (ex_point 0 3 IPS_UNINITIALIZED) 100 1),
           snd (ex_trace (ex_point 0 3 IPS_UNINITIALIZED) 100 1))"
    by (simp add: ex_trace_def)
  from traceOn_GOOD [OF this] ev show ?thesis by simp
qed

text \<open>
  C2, as the code has it. When the search reaches the interval update (the energy test
  has passed), the point receives the re-lifted endpoints, swapped when out of order.
  If then \<open>idepth_min\<close> or \<open>idepth_max\<close> is not finite, or \<open>idepth_max\<close> is negative,
  \<^verbatim>\<open>traceOn\<close> returns OUTLIER, with pixel interval 0 and pixel \<open>(-1, -1)\<close>; otherwise it
  stores \<open>lastTracePixelInterval = 2 \<sdot> errorInPixel\<close> and returns GOOD.
\<close>

theorem traceOn_interval_update:
  assumes "lastTraceStatus p \<noteq> IPS_OOB"
    and "traceOn_search S p frame KRKi Kt aff = Inr (p1, e, l, g)"
    and "gn_bestEnergy g < energyTH p1 * setting_trace_extraSlackOnTH S"
    and "reliftInterval Kt e l g = (lo, hi)"
    and "traceOn S p frame KRKi Kt aff = (st, p')"
  shows "idepth_min p' = (if lo > hi then hi else lo)
         \<and> idepth_max p' = (if lo > hi then lo else hi)
         \<and> (if \<not> isfinite (idepth_min p') \<or> \<not> isfinite (idepth_max p') \<or> idepth_max p' < Fl 0
            then st = IPS_OUTLIER \<and> lastTracePixelInterval p' = Fl 0
                 \<and> lastTraceUV p' = (Fl (- 1), Fl (- 1))
            else st = IPS_GOOD \<and> lastTracePixelInterval p' = Fl 2 * errorInPixel l)"
proof -
  have "traceOn_setInterval p1 Kt e l g = (st, p')"
    using assms(3,5) traceOn_reach [OF assms(1,2)] by (simp add: traceOn_outlierGate_def)
  with assms(4) show ?thesis
    by (auto simp: traceOn_setInterval_def Let_def trace_fail_def split: if_splits)
qed

text \<open>
  The statement at the point with interval \<open>[0, 3]\<close>: the re-lifted endpoints are
  \<open>- 0.4\<close> and \<open>0.4\<close>, the call returns GOOD and stores the pixel interval \<open>0.8\<close>.
\<close>

theorem traceOn_interval_update_witness:
  "fst (ex_trace (ex_point 0 3 IPS_SKIPPED) 100 1) = IPS_GOOD
   \<and> idepth_min (snd (ex_trace (ex_point 0 3 IPS_SKIPPED) 100 1)) = Fl (- 0.4)
   \<and> idepth_max (snd (ex_trace (ex_point 0 3 IPS_SKIPPED) 100 1)) = Fl 0.4
   \<and> lastTracePixelInterval (snd (ex_trace (ex_point 0 3 IPS_SKIPPED) 100 1)) = Fl 0.8"
proof -
  let ?p = "ex_point 0 3 IPS_SKIPPED"
  from ex_search_match [of IPS_SKIPPED] obtain e l g where
    reach: "traceOn_search ex_settings ?p (flat_frame 100 (Fl 0)) ident33 (Fl 1, Fl 0, Fl 0) (Fl 1, Fl 0)
            = Inr (?p, e, l, g)"
    and err: "errorInPixel l = Fl 0.4"
    and en: "gn_bestEnergy g = Fl 0"
    and re: "reliftInterval (Fl 1, Fl 0, Fl 0) e l g = (Fl (- 0.4), Fl 0.4)"
    by (auto simp: ex_search_def)
  have notOOB: "lastTraceStatus ?p \<noteq> IPS_OOB" by (simp add: ex_point_simps)
  have pass: "gn_bestEnergy g < energyTH ?p * setting_trace_extraSlackOnTH ex_settings"
    by (simp add: en ex_point_simps ex_settings_simps)
  have tr: "traceOn ex_settings ?p (flat_frame 100 (Fl 0)) ident33 (Fl 1, Fl 0, Fl 0) (Fl 1, Fl 0)
            = (fst (ex_trace ?p 100 1), snd (ex_trace ?p 100 1))"
    by (simp add: ex_trace_def)
  from traceOn_interval_update [OF notOOB reach pass re tr] err show ?thesis
    by (simp split: if_splits)
qed

text \<open>
  The claim as stated fails: at the point with interval \<open>[0.0005, 3.0005]\<close> the
  re-lifted endpoints are both negative and the call returns OUTLIER, not OOB; and at the
  point with interval \<open>[0, 3]\<close> the lower re-lifted endpoint is negative and the call
  returns GOOD.
\<close>

theorem traceOn_interval_outlier_not_oob:
  "fst (ex_trace (ex_point 0.0005 3.0005 IPS_GOOD) 100 1) = IPS_OUTLIER
   \<and> idepth_max (snd (ex_trace (ex_point 0.0005 3.0005 IPS_GOOD) 100 1)) < Fl 0
   \<and> fst (ex_trace (ex_point 0 3 IPS_GOOD) 100 1) = IPS_GOOD
   \<and> idepth_min (snd (ex_trace (ex_point 0 3 IPS_GOOD) 100 1)) < Fl 0"
  using ex_trace_match [of IPS_GOOD] ex_trace_shifted [of IPS_GOOD] by simp

text \<open>
  The interval update returns OUTLIER only with the re-lifted endpoints stored, swapped
  when out of order, and with one of them not finite or the upper one negative.
\<close>

lemma traceOn_setInterval_OUTLIER:
  assumes "fst (traceOn_setInterval p Kt e l g) = IPS_OUTLIER"
  shows "idepth_min (snd (traceOn_setInterval p Kt e l g))
           = (if fst (reliftInterval Kt e l g) > snd (reliftInterval Kt e l g)
              then snd (reliftInterval Kt e l g) else fst (reliftInterval Kt e l g))"
    and "idepth_max (snd (traceOn_setInterval p Kt e l g))
           = (if fst (reliftInterval Kt e l g) > snd (reliftInterval Kt e l g)
              then fst (reliftInterval Kt e l g) else snd (reliftInterval Kt e l g))"
    and "\<not> isfinite (idepth_min (snd (traceOn_setInterval p Kt e l g)))
         \<or> \<not> isfinite (idepth_max (snd (traceOn_setInterval p Kt e l g)))
         \<or> idepth_max (snd (traceOn_setInterval p Kt e l g)) < Fl 0"
  using assms
  by (auto simp: traceOn_setInterval_def Let_def trace_fail_def split: if_splits)

text \<open>
  C1, as the code has it. On a point whose stored status is OUTLIER, a call of
  \<^verbatim>\<open>traceOn\<close> that fails the energy test returns OOB (the second strike); the call can
  return OUTLIER again only from the interval update, that is, after the energy test has
  passed, and then the point holds the re-lifted interval (swapped when out of order), of
  which an endpoint is not finite or the upper endpoint is negative.
\<close>

theorem traceOn_second_strike:
  assumes "lastTraceStatus p = IPS_OUTLIER"
  shows "(\<forall>p1 e l g. traceOn_search S p frame KRKi Kt aff = Inr (p1, e, l, g)
            \<longrightarrow> \<not> gn_bestEnergy g < energyTH p1 * setting_trace_extraSlackOnTH S
            \<longrightarrow> fst (traceOn S p frame KRKi Kt aff) = IPS_OOB)
         \<and> (fst (traceOn S p frame KRKi Kt aff) = IPS_OUTLIER
            \<longrightarrow> (\<exists>p1 e l g. traceOn_search S p frame KRKi Kt aff = Inr (p1, e, l, g)
                   \<and> gn_bestEnergy g < energyTH p1 * setting_trace_extraSlackOnTH S
                   \<and> traceOn S p frame KRKi Kt aff = traceOn_setInterval p1 Kt e l g
                   \<and> idepth_min (snd (traceOn S p frame KRKi Kt aff))
                       = (if fst (reliftInterval Kt e l g) > snd (reliftInterval Kt e l g)
                          then snd (reliftInterval Kt e l g) else fst (reliftInterval Kt e l g))
                   \<and> idepth_max (snd (traceOn S p frame KRKi Kt aff))
                       = (if fst (reliftInterval Kt e l g) > snd (reliftInterval Kt e l g)
                          then fst (reliftInterval Kt e l g) else snd (reliftInterval Kt e l g))
                   \<and> (\<not> isfinite (idepth_min (snd (traceOn S p frame KRKi Kt aff)))
                      \<or> \<not> isfinite (idepth_max (snd (traceOn S p frame KRKi Kt aff)))
                      \<or> idepth_max (snd (traceOn S p frame KRKi Kt aff)) < Fl 0)))"
proof (intro conjI allI impI)
  fix p1 e l g
  assume reach: "traceOn_search S p frame KRKi Kt aff = Inr (p1, e, l, g)"
    and fail: "\<not> gn_bestEnergy g < energyTH p1 * setting_trace_extraSlackOnTH S"
  from assms have notOOB: "lastTraceStatus p \<noteq> IPS_OOB" by simp
  from traceOn_search_Inr [OF reach] assms have "lastTraceStatus p1 = IPS_OUTLIER" by simp
  with fail show "fst (traceOn S p frame KRKi Kt aff) = IPS_OOB"
    by (simp add: traceOn_reach [OF notOOB reach] traceOn_outlierGate_def)
next
  let ?r = "traceOn S p frame KRKi Kt aff"
  assume out: "fst ?r = IPS_OUTLIER"
  from assms have notOOB: "lastTraceStatus p \<noteq> IPS_OOB" by simp
  show "\<exists>p1 e l g. traceOn_search S p frame KRKi Kt aff = Inr (p1, e, l, g)
          \<and> gn_bestEnergy g < energyTH p1 * setting_trace_extraSlackOnTH S
          \<and> ?r = traceOn_setInterval p1 Kt e l g
          \<and> idepth_min (snd ?r)
              = (if fst (reliftInterval Kt e l g) > snd (reliftInterval Kt e l g)
                 then snd (reliftInterval Kt e l g) else fst (reliftInterval Kt e l g))
          \<and> idepth_max (snd ?r)
              = (if fst (reliftInterval Kt e l g) > snd (reliftInterval Kt e l g)
                 then fst (reliftInterval Kt e l g) else snd (reliftInterval Kt e l g))
          \<and> (\<not> isfinite (idepth_min (snd ?r)) \<or> \<not> isfinite (idepth_max (snd ?r))
             \<or> idepth_max (snd ?r) < Fl 0)"
  proof (cases "traceOn_search S p frame KRKi Kt aff")
    case (Inl r)
    with notOOB have "?r = r" by (simp add: traceOn_def)
    with out traceOn_search_Inl [OF Inl] show ?thesis by auto
  next
    case (Inr x)
    obtain p1 e l g where x: "x = (p1, e, l, g)" by (cases x) auto
    with Inr have reach: "traceOn_search S p frame KRKi Kt aff = Inr (p1, e, l, g)" by simp
    from traceOn_search_Inr [OF reach] assms have p1: "lastTraceStatus p1 = IPS_OUTLIER" by simp
    have pass: "gn_bestEnergy g < energyTH p1 * setting_trace_extraSlackOnTH S"
    proof (rule ccontr)
      assume "\<not> gn_bestEnergy g < energyTH p1 * setting_trace_extraSlackOnTH S"
      with p1 have "fst ?r = IPS_OOB"
        by (simp add: traceOn_reach [OF notOOB reach] traceOn_outlierGate_def)
      with out show False by simp
    qed
    then have eq: "?r = traceOn_setInterval p1 Kt e l g"
      by (simp add: traceOn_reach [OF notOOB reach] traceOn_outlierGate_def)
    with out have out': "fst (traceOn_setInterval p1 Kt e l g) = IPS_OUTLIER" by simp
    note upd = traceOn_setInterval_OUTLIER [OF out', folded eq]
    from reach pass eq upd show ?thesis by blast
  qed
qed

text \<open>
  The statement at a point with stored status OUTLIER. Traced against a frame of another
  intensity, the energy 13752 is above the threshold \<open>1152 \<sdot> 1.2\<close>, and the call
  returns OOB. Traced against a frame of its own colour, the energy test passes, both
  re-lifted endpoints are negative, and the call returns OUTLIER.
\<close>

theorem traceOn_second_strike_witness:
  "lastTraceStatus (ex_point 0.0005 3.0005 IPS_OUTLIER) = IPS_OUTLIER
   \<and> fst (ex_trace (ex_point 0.0005 3.0005 IPS_OUTLIER) 200 1) = IPS_OOB
   \<and> fst (ex_trace (ex_point 0.0005 3.0005 IPS_OUTLIER) 100 1) = IPS_OUTLIER
   \<and> idepth_max (snd (ex_trace (ex_point 0.0005 3.0005 IPS_OUTLIER) 100 1)) < Fl 0"
proof -
  let ?p = "ex_point 0.0005 3.0005 IPS_OUTLIER"
  from ex_search_mismatch [of IPS_OUTLIER] obtain e l g where
    reach: "traceOn_search ex_settings ?p (flat_frame 200 (Fl 0)) ident33 (Fl 1, Fl 0, Fl 0) (Fl 1, Fl 0)
            = Inr (?p\<lparr>quality := Fl 1\<rparr>, e, l, g)"
    and en: "gn_bestEnergy g = Fl 13752"
    by (auto simp: ex_search_def)
  have st: "lastTraceStatus ?p = IPS_OUTLIER" by (simp add: ex_point_simps)
  have fail: "\<not> gn_bestEnergy g < energyTH (?p\<lparr>quality := Fl 1\<rparr>) * setting_trace_extraSlackOnTH ex_settings"
    by (simp add: en ex_point_simps ex_settings_simps)
  have strike: "fst (ex_trace ?p 200 1) = IPS_OOB"
    using traceOn_second_strike [OF st, THEN conjunct1, rule_format, OF reach fail]
    by (simp add: ex_trace_def)
  have again: "fst (ex_trace ?p 100 1) = IPS_OUTLIER \<and> idepth_max (snd (ex_trace ?p 100 1)) < Fl 0"
    using ex_trace_shifted [of IPS_OUTLIER] by simp
  from st strike again show ?thesis by simp
qed

text \<open>
  The claim as stated fails: a point whose last trace was GOOD is traced against a frame
  of another intensity and returns OUTLIER at the energy test; the next call, against a
  frame of the point's own colour, passes the energy test and returns OUTLIER again, from
  the interval update.
\<close>

theorem traceOn_outlier_twice:
  "fst (ex_trace (ex_point 0.0005 3.0005 IPS_GOOD) 200 1) = IPS_OUTLIER
   \<and> lastTraceStatus (snd (ex_trace (ex_point 0.0005 3.0005 IPS_GOOD) 200 1)) = IPS_OUTLIER
   \<and> fst (ex_trace (snd (ex_trace (ex_point 0.0005 3.0005 IPS_GOOD) 200 1)) 100 1) = IPS_OUTLIER"
proof -
  have first: "ex_trace (ex_point 0.0005 3.0005 IPS_GOOD) 200 1 =
     (IPS_OUTLIER, (ex_point 0.0005 3.0005 IPS_GOOD)\<lparr>quality := Fl 1,
        lastTraceUV := (Fl (- 1), Fl (- 1)), lastTracePixelInterval := Fl 0,
        lastTraceStatus := IPS_OUTLIER\<rparr>)"
    using ex_trace_mismatch [of IPS_GOOD] by simp
  have "fst (ex_trace ((ex_point 0.0005 3.0005 IPS_GOOD)\<lparr>quality := Fl 1,
        lastTraceUV := (Fl (- 1), Fl (- 1)), lastTracePixelInterval := Fl 0,
        lastTraceStatus := IPS_OUTLIER\<rparr>) 100 1) = IPS_OUTLIER"
    by (simp add: trace_eval cong: let_weak_cong)
  with first show ?thesis by simp
qed

section \<open>Skipped traces\<close>

lemma zero_baseline_ptp: "isfinite d \<Longrightarrow> ptpAt pr' (Fl 0, Fl 0, Fl 0) d = pr'"
  by (cases d; cases pr') (simp_all add: ptpAt_def)

lemma inBounds_finite: "inBounds S bound uv \<Longrightarrow> isfinite (fst uv) \<and> isfinite (snd uv)"
  by (cases "fst uv"; cases "snd uv") (simp_all add: inBounds_def of_int_f_def)

lemma endpointDist_same:
  "isfinite (fst uv) \<Longrightarrow> isfinite (snd uv) \<Longrightarrow> endpointDist uv uv = Fl 0"
  by (cases "fst uv"; cases "snd uv") (simp_all add: endpointDist_def minus_cfloat_def)

lemma traceOn_project_skip:
  assumes "isfinite (idepth_max p)"
    and "inBounds S (traceBounds S KRKi)
           (pixelOf (ptpAt (mat33_vec KRKi (ip_u p, ip_v p, Fl 1)) Kt (idepth_min p)))"
    and "inBounds S (traceBounds S KRKi)
           (pixelOf (ptpAt (mat33_vec KRKi (ip_u p, ip_v p, Fl 1)) Kt (idepth_max p)))"
    and "endpointDist
           (pixelOf (ptpAt (mat33_vec KRKi (ip_u p, ip_v p, Fl 1)) Kt (idepth_min p)))
           (pixelOf (ptpAt (mat33_vec KRKi (ip_u p, ip_v p, Fl 1)) Kt (idepth_max p)))
         < setting_trace_slackInterval S"
  shows "\<exists>r. traceOn_project S p KRKi Kt = Inl r \<and> fst r = IPS_SKIPPED
           \<and> idepth_min (snd r) = idepth_min p \<and> idepth_max (snd r) = idepth_max p"
  using assms by (simp add: traceOn_project_def Let_def)

text \<open>
  C3, as the code has it. For a point whose stored status is not OOB and whose
  \<open>idepth_max\<close> is finite: whenever both projected endpoints lie inside the admissible
  image bounds and their distance is below \<^verbatim>\<open>setting_trace_slackInterval\<close>, \<^verbatim>\<open>traceOn\<close>
  returns SKIPPED and leaves \<open>idepth_min\<close> and \<open>idepth_max\<close> as they are. In
  particular this is so for \<open>idepth_min = idepth_max\<close> under a zero baseline, when the
  projected point lies inside the bounds and the slack interval is positive.
\<close>

theorem traceOn_skipped:
  assumes "lastTraceStatus p \<noteq> IPS_OOB" and "isfinite (idepth_max p)"
  shows "(inBounds S (traceBounds S KRKi)
            (pixelOf (ptpAt (mat33_vec KRKi (ip_u p, ip_v p, Fl 1)) Kt (idepth_min p)))
          \<longrightarrow> inBounds S (traceBounds S KRKi)
            (pixelOf (ptpAt (mat33_vec KRKi (ip_u p, ip_v p, Fl 1)) Kt (idepth_max p)))
          \<longrightarrow> endpointDist
                (pixelOf (ptpAt (mat33_vec KRKi (ip_u p, ip_v p, Fl 1)) Kt (idepth_min p)))
                (pixelOf (ptpAt (mat33_vec KRKi (ip_u p, ip_v p, Fl 1)) Kt (idepth_max p)))
              < setting_trace_slackInterval S
          \<longrightarrow> fst (traceOn S p frame KRKi Kt aff) = IPS_SKIPPED
              \<and> idepth_min (snd (traceOn S p frame KRKi Kt aff)) = idepth_min p
              \<and> idepth_max (snd (traceOn S p frame KRKi Kt aff)) = idepth_max p)
       \<and> (Kt = (Fl 0, Fl 0, Fl 0) \<longrightarrow> idepth_min p = idepth_max p
          \<longrightarrow> inBounds S (traceBounds S KRKi) (pixelOf (mat33_vec KRKi (ip_u p, ip_v p, Fl 1)))
          \<longrightarrow> Fl 0 < setting_trace_slackInterval S
          \<longrightarrow> fst (traceOn S p frame KRKi Kt aff) = IPS_SKIPPED
              \<and> idepth_min (snd (traceOn S p frame KRKi Kt aff)) = idepth_min p
              \<and> idepth_max (snd (traceOn S p frame KRKi Kt aff)) = idepth_max p)"
proof -
  have skip: "fst (traceOn S p frame KRKi Kt aff) = IPS_SKIPPED
              \<and> idepth_min (snd (traceOn S p frame KRKi Kt aff)) = idepth_min p
              \<and> idepth_max (snd (traceOn S p frame KRKi Kt aff)) = idepth_max p"
    if "\<exists>r. traceOn_project S p KRKi Kt = Inl r \<and> fst r = IPS_SKIPPED
           \<and> idepth_min (snd r) = idepth_min p \<and> idepth_max (snd r) = idepth_max p"
    using that assms(1) by (auto simp: traceOn_def traceOn_search_def)
  show ?thesis
  proof (intro conjI impI)
    assume "inBounds S (traceBounds S KRKi)
            (pixelOf (ptpAt (mat33_vec KRKi (ip_u p, ip_v p, Fl 1)) Kt (idepth_min p)))"
      "inBounds S (traceBounds S KRKi)
            (pixelOf (ptpAt (mat33_vec KRKi (ip_u p, ip_v p, Fl 1)) Kt (idepth_max p)))"
      "endpointDist
                (pixelOf (ptpAt (mat33_vec KRKi (ip_u p, ip_v p, Fl 1)) Kt (idepth_min p)))
                (pixelOf (ptpAt (mat33_vec KRKi (ip_u p, ip_v p, Fl 1)) Kt (idepth_max p)))
              < setting_trace_slackInterval S"
    from skip [OF traceOn_project_skip [OF assms(2) this]]
    show "fst (traceOn S p frame KRKi Kt aff) = IPS_SKIPPED"
      "idepth_min (snd (traceOn S p frame KRKi Kt aff)) = idepth_min p"
      "idepth_max (snd (traceOn S p frame KRKi Kt aff)) = idepth_max p"
      by simp_all
  next
    assume zero: "Kt = (Fl 0, Fl 0, Fl 0)" and same: "idepth_min p = idepth_max p"
      and inb: "inBounds S (traceBounds S KRKi) (pixelOf (mat33_vec KRKi (ip_u p, ip_v p, Fl 1)))"
      and slack: "Fl 0 < setting_trace_slackInterval S"
    let ?pr = "mat33_vec KRKi (ip_u p, ip_v p, Fl 1)"
    have ptp: "ptpAt ?pr Kt (idepth_max p) = ?pr"
      using zero assms(2) by (simp add: zero_baseline_ptp)
    have d: "endpointDist (pixelOf ?pr) (pixelOf ?pr) = Fl 0"
      using inBounds_finite [OF inb] by (simp add: endpointDist_same)
    have "\<exists>r. traceOn_project S p KRKi Kt = Inl r \<and> fst r = IPS_SKIPPED
           \<and> idepth_min (snd r) = idepth_min p \<and> idepth_max (snd r) = idepth_max p"
      by (rule traceOn_project_skip) (use assms(2) same ptp inb d slack in simp_all)
    from skip [OF this]
    show "fst (traceOn S p frame KRKi Kt aff) = IPS_SKIPPED"
      "idepth_min (snd (traceOn S p frame KRKi Kt aff)) = idepth_min p"
      "idepth_max (snd (traceOn S p frame KRKi Kt aff)) = idepth_max p"
      by simp_all
  qed
qed

lemma ex_inBounds:
  "inBounds ex_settings (traceBounds ex_settings ident33)
     (pixelOf (mat33_vec ident33 (ip_u (ex_point lo hi st), ip_v (ex_point lo hi st), Fl 1)))"
  by (simp add: trace_eval cong: let_weak_cong)

text \<open>
  The statement at a point with \<open>idepth_min = idepth_max = 1\<close> under a zero baseline:
  the call returns SKIPPED and the interval stays \<open>[1, 1]\<close>.
\<close>

theorem traceOn_skipped_witness:
  "fst (ex_trace (ex_point 1 1 IPS_GOOD) 100 0) = IPS_SKIPPED
   \<and> idepth_min (snd (ex_trace (ex_point 1 1 IPS_GOOD) 100 0)) = Fl 1
   \<and> idepth_max (snd (ex_trace (ex_point 1 1 IPS_GOOD) 100 0)) = Fl 1"
proof -
  let ?p = "ex_point 1 1 IPS_GOOD"
  have a: "lastTraceStatus ?p \<noteq> IPS_OOB" "isfinite (idepth_max ?p)"
    "idepth_min ?p = idepth_max ?p" "Fl 0 < setting_trace_slackInterval ex_settings"
    by (simp_all add: ex_point_simps ex_settings_simps)
  from traceOn_skipped [OF a(1,2), of ex_settings ident33 "(Fl 0, Fl 0, Fl 0)"
      "flat_frame 100 (Fl 0)" "(Fl 1, Fl 0)", THEN conjunct2, rule_format,
      OF refl a(3) ex_inBounds a(4)]
  show ?thesis by (simp add: ex_trace_def ex_point_simps)
qed

text \<open>
  The claim as stated fails on a point whose stored status is OOB: with
  \<open>idepth_min = idepth_max = 1\<close>, a zero baseline and the projected point inside the
  bounds, the call returns OOB at once.
\<close>

theorem traceOn_skip_short_circuit:
  "isfinite (idepth_max (ex_point 1 1 IPS_OOB))
   \<and> idepth_min (ex_point 1 1 IPS_OOB) = idepth_max (ex_point 1 1 IPS_OOB)
   \<and> inBounds ex_settings (traceBounds ex_settings ident33)
        (pixelOf (mat33_vec ident33 (ip_u (ex_point 1 1 IPS_OOB), ip_v (ex_point 1 1 IPS_OOB), Fl 1)))
   \<and> fst (ex_trace (ex_point 1 1 IPS_OOB) 100 0) = IPS_OOB"
  using ex_inBounds [of 1 1 IPS_OOB]
  by (simp add: ex_trace_def traceOn_def ex_point_simps)

section \<open>The activation pass\<close>

lemma canActivate_idx [simp]:
  "canActivate S (ip\<lparr>idxInImmaturePoints := i\<rparr>) = canActivate S ip"
  by (simp add: canActivate_def)

lemma queued_ok_idx [simp]: "queued_ok S (ip\<lparr>idxInImmaturePoints := i\<rparr>) = queued_ok S ip"
  by (simp add: queued_ok_def)

lemma activatePoint_drop:
  assumes "\<not> isfinite (idepth_max ip) \<or> lastTraceStatus ip = IPS_OUTLIER"
  shows "activatePoint add S c KRKi Kt i ip st = (None, st)"
  using assms by (auto simp: activatePoint_def Let_def)

lemma activatePoint_ineligible:
  assumes "isfinite (idepth_max ip)" "lastTraceStatus ip \<noteq> IPS_OUTLIER" "\<not> canActivate S ip"
  shows "activatePoint add S c KRKi Kt i ip st =
           ((if host_flaggedForMarginalization ip \<or> lastTraceStatus ip = IPS_OOB then None
             else Some (ip\<lparr>idxInImmaturePoints := i\<rparr>)), st)"
  using assms by (auto simp: activatePoint_def Let_def)

lemma activatePoint_queue:
  assumes "activatePoint add S c KRKi Kt i ip (dm, toOpt) = (slot, dm', toOpt')"
  shows "toOpt' = toOpt \<or>
         (toOpt' = toOpt @ [ip\<lparr>idxInImmaturePoints := i\<rparr>] \<and> canActivate S ip
          \<and> isfinite (idepth_max ip) \<and> lastTraceStatus ip \<noteq> IPS_OUTLIER)"
  using assms by (auto simp: activatePoint_def Let_def split: if_splits)

lemma activatePoint_slot:
  assumes "activatePoint add S c KRKi Kt i ip st = (slot, st')"
  shows "(\<not> isfinite (idepth_max ip) \<or> lastTraceStatus ip = IPS_OUTLIER \<longrightarrow> slot = None)
       \<and> (isfinite (idepth_max ip) \<and> lastTraceStatus ip \<noteq> IPS_OUTLIER \<and> \<not> canActivate S ip \<longrightarrow>
            slot = (if host_flaggedForMarginalization ip \<or> lastTraceStatus ip = IPS_OOB then None
                    else Some (ip\<lparr>idxInImmaturePoints := i\<rparr>)))"
  using assms by (auto simp: activatePoint_drop activatePoint_ineligible)

lemma scanImmaturePoints_inv:
  assumes "scanImmaturePoints add S c KRKi Kt k ips (dm, toOpt) = (slots, dm', toOpt')"
    and "\<forall>q \<in> set toOpt. queued_ok S q"
  shows "(\<forall>i < length ips.
            (\<not> isfinite (idepth_max (ips ! i)) \<or> lastTraceStatus (ips ! i) = IPS_OUTLIER
               \<longrightarrow> slots ! i = None)
          \<and> (isfinite (idepth_max (ips ! i)) \<and> lastTraceStatus (ips ! i) \<noteq> IPS_OUTLIER
             \<and> \<not> canActivate S (ips ! i) \<longrightarrow>
               slots ! i = (if host_flaggedForMarginalization (ips ! i)
                               \<or> lastTraceStatus (ips ! i) = IPS_OOB then None
                            else Some ((ips ! i)\<lparr>idxInImmaturePoints := k + i\<rparr>))))
         \<and> (\<forall>q \<in> set toOpt'. queued_ok S q)"
  using assms
proof (induction ips arbitrary: k dm toOpt slots dm' toOpt')
  case Nil
  then show ?case by simp
next
  case (Cons ip ips)
  obtain slot dm1 toOpt1 where
    step: "activatePoint add S c KRKi Kt k ip (dm, toOpt) = (slot, dm1, toOpt1)"
    by (cases "activatePoint add S c KRKi Kt k ip (dm, toOpt)") auto
  obtain rest dm2 toOpt2 where
    rec: "scanImmaturePoints add S c KRKi Kt (Suc k) ips (dm1, toOpt1) = (rest, dm2, toOpt2)"
    by (cases "scanImmaturePoints add S c KRKi Kt (Suc k) ips (dm1, toOpt1)") auto
  from Cons.prems(1) step rec have res: "slots = slot # rest" "toOpt' = toOpt2"
    by simp_all
  from activatePoint_queue [OF step] Cons.prems(2)
  have q1: "\<forall>q \<in> set toOpt1. queued_ok S q" by (auto simp: queued_ok_def)
  note ih = Cons.IH [OF rec q1]
  note here = activatePoint_slot [OF step]
  have "(\<not> isfinite (idepth_max ((ip # ips) ! i)) \<or> lastTraceStatus ((ip # ips) ! i) = IPS_OUTLIER
               \<longrightarrow> (slot # rest) ! i = None)
          \<and> (isfinite (idepth_max ((ip # ips) ! i)) \<and> lastTraceStatus ((ip # ips) ! i) \<noteq> IPS_OUTLIER
             \<and> \<not> canActivate S ((ip # ips) ! i) \<longrightarrow>
               (slot # rest) ! i = (if host_flaggedForMarginalization ((ip # ips) ! i)
                               \<or> lastTraceStatus ((ip # ips) ! i) = IPS_OOB then None
                            else Some (((ip # ips) ! i)\<lparr>idxInImmaturePoints := k + i\<rparr>)))"
    if "i < length (ip # ips)" for i
  proof (cases i)
    case 0
    with here show ?thesis by simp
  next
    case (Suc j)
    with that ih show ?thesis by simp
  qed
  with ih res show ?case by simp
qed

lemma scanFrames_inv:
  assumes "scanFrames add S c frames (dm, toOpt) = (slots, dm', toOpt')"
    and "\<forall>q \<in> set toOpt. queued_ok S q"
  shows "(\<forall>h. h + 1 < length frames \<longrightarrow>
           (\<forall>i < length (immaturePoints (frames ! h)).
            (\<not> isfinite (idepth_max (immaturePoints (frames ! h) ! i))
               \<or> lastTraceStatus (immaturePoints (frames ! h) ! i) = IPS_OUTLIER
               \<longrightarrow> slots ! h ! i = None)
          \<and> (isfinite (idepth_max (immaturePoints (frames ! h) ! i))
             \<and> lastTraceStatus (immaturePoints (frames ! h) ! i) \<noteq> IPS_OUTLIER
             \<and> \<not> canActivate S (immaturePoints (frames ! h) ! i) \<longrightarrow>
               slots ! h ! i =
                 (if host_flaggedForMarginalization (immaturePoints (frames ! h) ! i)
                     \<or> lastTraceStatus (immaturePoints (frames ! h) ! i) = IPS_OOB then None
                  else Some ((immaturePoints (frames ! h) ! i)\<lparr>idxInImmaturePoints := i\<rparr>)))))
         \<and> (\<forall>q \<in> set toOpt'. queued_ok S q)"
  using assms
proof (induction frames arbitrary: dm toOpt slots dm' toOpt')
  case Nil
  then show ?case by simp
next
  case (Cons host hosts)
  show ?case
  proof (cases hosts)
    case Nil
    with Cons.prems show ?thesis by auto
  next
    case (Cons v va)
    obtain sl dm1 toOpt1 where
      sc: "scanImmaturePoints add S c (fhToNew_KRKi host) (fhToNew_Kt host) 0
             (immaturePoints host) (dm, toOpt) = (sl, dm1, toOpt1)"
      by (cases "scanImmaturePoints add S c (fhToNew_KRKi host) (fhToNew_Kt host) 0
                   (immaturePoints host) (dm, toOpt)") auto
    obtain rest dm2 toOpt2 where
      rec: "scanFrames add S c hosts (dm1, toOpt1) = (rest, dm2, toOpt2)"
      by (cases "scanFrames add S c hosts (dm1, toOpt1)") auto
    from Cons.prems(1) sc rec Cons have res: "slots = sl # rest" "toOpt' = toOpt2" by simp_all
    note s1 = scanImmaturePoints_inv [OF sc Cons.prems(2)]
    then have q1: "\<forall>q \<in> set toOpt1. queued_ok S q" by simp
    note ih = Cons.IH [OF rec q1]
    have "(\<forall>i < length (immaturePoints ((host # hosts) ! h)).
            (\<not> isfinite (idepth_max (immaturePoints ((host # hosts) ! h) ! i))
               \<or> lastTraceStatus (immaturePoints ((host # hosts) ! h) ! i) = IPS_OUTLIER
               \<longrightarrow> (sl # rest) ! h ! i = None)
          \<and> (isfinite (idepth_max (immaturePoints ((host # hosts) ! h) ! i))
             \<and> lastTraceStatus (immaturePoints ((host # hosts) ! h) ! i) \<noteq> IPS_OUTLIER
             \<and> \<not> canActivate S (immaturePoints ((host # hosts) ! h) ! i) \<longrightarrow>
               (sl # rest) ! h ! i =
                 (if host_flaggedForMarginalization (immaturePoints ((host # hosts) ! h) ! i)
                     \<or> lastTraceStatus (immaturePoints ((host # hosts) ! h) ! i) = IPS_OOB
                  then None
                  else Some ((immaturePoints ((host # hosts) ! h) ! i)\<lparr>idxInImmaturePoints := i\<rparr>))))"
      if "h + 1 < length (host # hosts)" for h
    proof (cases h)
      case 0
      with s1 show ?thesis by simp
    next
      case (Suc j)
      with that ih show ?thesis by simp
    qed
    with ih res show ?thesis by simp
  qed
qed

text \<open>
  C4. In the scan of \<^verbatim>\<open>activatePointsMT\<close>, for the immature point at index \<open>i\<close> of a
  keyframe \<open>h\<close> other than the newest: the point is deleted (its entry becomes the null
  pointer) if \<open>idepth_max\<close> is not finite or its last status is OUTLIER; otherwise, if it
  is not eligible, it is deleted exactly when its host is flagged for marginalisation or
  its last status is OOB, and is left in place if not; and every point that is queued
  for activation has a last status among GOOD, SKIPPED, BADCONDITION and OOB, a last
  pixel interval below 8, a quality above \<^verbatim>\<open>setting_minTraceQuality\<close> and
  \<open>idepth_max + idepth_min > 0\<close>.
\<close>

theorem activation_scan:
  assumes "activatePointsMT_scan R add S nPoints c distMap frames = (c', slots, dm', toOptimize)"
    and "h + 1 < length frames" and "i < length (immaturePoints (frames ! h))"
    and "ip = immaturePoints (frames ! h) ! i"
  shows "(\<not> isfinite (idepth_max ip) \<or> lastTraceStatus ip = IPS_OUTLIER \<longrightarrow> slots ! h ! i = None)
       \<and> (isfinite (idepth_max ip) \<and> lastTraceStatus ip \<noteq> IPS_OUTLIER \<and> \<not> canActivate S ip \<longrightarrow>
            slots ! h ! i =
              (if host_flaggedForMarginalization ip \<or> lastTraceStatus ip = IPS_OOB then None
               else Some (ip\<lparr>idxInImmaturePoints := i\<rparr>)))
       \<and> (\<forall>q \<in> set toOptimize.
            (lastTraceStatus q = IPS_GOOD \<or> lastTraceStatus q = IPS_SKIPPED
             \<or> lastTraceStatus q = IPS_BADCONDITION \<or> lastTraceStatus q = IPS_OOB)
            \<and> lastTracePixelInterval q < Fl 8 \<and> quality q > setting_minTraceQuality S
            \<and> idepth_max q + idepth_min q > Fl 0)"
proof -
  from assms(1) have sc: "scanFrames add S c' frames (distMap, []) = (slots, dm', toOptimize)"
    by (auto simp: activatePointsMT_scan_def Let_def)
  have "\<forall>q \<in> set ([] :: ImmaturePoint list). queued_ok S q" by simp
  from scanFrames_inv [OF sc this] assms(2,3,4) show ?thesis
    by (simp add: queued_ok_def canActivate_def)
qed

text \<open>
  The statement at the window \<open>ex_frames\<close>: the first point of the older keyframe is an
  outlier and is deleted; the second has never been traced, is not eligible, and stays.
\<close>

theorem activation_scan_witness:
  "fst (snd (activatePointsMT_scan ex_exact (\<lambda>u v m. m) ex_settings 0 (Fl 2) (\<lambda>k. Fl 0) ex_frames)) ! 0 ! 0
     = None
   \<and> fst (snd (activatePointsMT_scan ex_exact (\<lambda>u v m. m) ex_settings 0 (Fl 2) (\<lambda>k. Fl 0) ex_frames)) ! 0 ! 1
     = Some ((ex_point 0 3 IPS_UNINITIALIZED)\<lparr>idxInImmaturePoints := 1\<rparr>)"
proof -
  let ?r = "activatePointsMT_scan ex_exact (\<lambda>u v m. m) ex_settings 0 (Fl 2) (\<lambda>k. Fl 0) ex_frames"
  have r: "?r = (fst ?r, fst (snd ?r), fst (snd (snd ?r)), snd (snd (snd ?r)))" by simp
  have h: "0 + 1 < length ex_frames" by (simp add: ex_frames_def)
  have i0: "0 < length (immaturePoints (ex_frames ! 0))"
    and i1: "1 < length (immaturePoints (ex_frames ! 0))"
    by (simp_all add: ex_frames_def)
  have p0: "ex_point 0 3 IPS_OUTLIER = immaturePoints (ex_frames ! 0) ! 0"
    and p1: "ex_point 0 3 IPS_UNINITIALIZED = immaturePoints (ex_frames ! 0) ! 1"
    by (simp_all add: ex_frames_def)
  from activation_scan [OF r h i0 p0] activation_scan [OF r h i1 p1]
  show ?thesis by (simp add: ex_point_simps canActivate_def)
qed

section \<open>The minimum activation distance\<close>

text \<open>A rounded sum or difference with a finite constant is NaN only on NaN.\<close>

lemma addR_Fl_not_NaN: "a \<noteq> NaN \<Longrightarrow> addR R a (Fl y) \<noteq> NaN"
  by (cases a) (simp_all add: addR_def)

lemma subR_Fl_not_NaN: "a \<noteq> NaN \<Longrightarrow> subR R a (Fl y) \<noteq> NaN"
  by (cases a) (simp_all add: subR_def minus_cfloat_def)

lemma clamp_0_4:
  "a \<noteq> NaN \<Longrightarrow>
     Fl 0 \<le> (if (if a < Fl 0 then Fl 0 else a) > Fl 4 then Fl 4 else (if a < Fl 0 then Fl 0 else a))
     \<and> (if (if a < Fl 0 then Fl 0 else a) > Fl 4 then Fl 4 else (if a < Fl 0 then Fl 0 else a))
         \<le> Fl 4"
  by (cases a) auto

text \<open>Whatever the old value, short of NaN, the new value lies in \<open>[0, 4]\<close>.\<close>

lemma adjustMinActDist_range:
  assumes "currentMinActDist \<noteq> NaN"
  shows "Fl 0 \<le> adjustMinActDist R S nPoints currentMinActDist
         \<and> adjustMinActDist R S nPoints currentMinActDist \<le> Fl 4"
  unfolding adjustMinActDist_def Let_def
  by (rule clamp_0_4) (simp add: assms addR_Fl_not_NaN subR_Fl_not_NaN)

lemma in_range_not_NaN: "Fl 0 \<le> a \<Longrightarrow> a \<noteq> NaN"
  by (cases a) simp_all

lemma minActDist_after_not_NaN: "minActDist_after R passes \<noteq> NaN"
proof (induction passes rule: rev_induct)
  case Nil
  show ?case by (simp add: minActDist_after_def)
next
  case (snoc pass passes)
  have "minActDist_after R (passes @ [pass])
        = adjustMinActDist R (fst pass) (snd pass) (minActDist_after R passes)"
    by (simp add: minActDist_after_def)
  with adjustMinActDist_range [OF snoc.IH, of R "fst pass" "snd pass"] show ?case
    by (simp add: in_range_not_NaN)
qed

text \<open>
  C5. Whatever the rounding of the machine, the adjustment at the start of
  \<^verbatim>\<open>activatePointsMT\<close> preserves \<open>0 \<le> currentMinActDist \<le> 4\<close>; and after every
  activation pass of a system, whose constructor sets the field to 2, the field lies in
  \<open>[0, 4]\<close>.
\<close>

theorem currentMinActDist_range:
  "(Fl 0 \<le> c \<and> c \<le> Fl 4 \<longrightarrow>
      Fl 0 \<le> adjustMinActDist R S nPoints c \<and> adjustMinActDist R S nPoints c \<le> Fl 4)
   \<and> (passes \<noteq> [] \<longrightarrow>
      Fl 0 \<le> minActDist_after R passes \<and> minActDist_after R passes \<le> Fl 4)"
proof (intro conjI impI)
  assume "Fl 0 \<le> c \<and> c \<le> Fl 4"
  then have "c \<noteq> NaN" by (simp add: in_range_not_NaN)
  from adjustMinActDist_range [OF this]
  show "Fl 0 \<le> adjustMinActDist R S nPoints c" "adjustMinActDist R S nPoints c \<le> Fl 4"
    by simp_all
next
  assume "passes \<noteq> []"
  then obtain pass rest where p: "passes = rest @ [pass]" by (metis rev_exhaust)
  have "minActDist_after R passes
        = adjustMinActDist R (fst pass) (snd pass) (minActDist_after R rest)"
    by (simp add: p minActDist_after_def)
  moreover have "minActDist_after R rest \<noteq> NaN" by (rule minActDist_after_not_NaN)
  note adjustMinActDist_range [OF this, of R "fst pass" "snd pass"]
  ultimately show "Fl 0 \<le> minActDist_after R passes" "minActDist_after R passes \<le> Fl 4"
    by simp_all
qed

text \<open>
  The statement at the value 2 with no active point: without rounding the field drops to
  \<open>0.7\<close>, with results rounded down to eighths it drops to \<open>0.625\<close>; after three passes
  with no active point the field has reached 0.
\<close>

theorem currentMinActDist_range_witness:
  "adjustMinActDist ex_exact ex_settings 0 (Fl 2) = Fl 0.7
   \<and> Fl 0 \<le> adjustMinActDist ex_exact ex_settings 0 (Fl 2)
   \<and> adjustMinActDist ex_exact ex_settings 0 (Fl 2) \<le> Fl 4
   \<and> adjustMinActDist ex_eighths ex_settings 0 (Fl 2) = Fl 0.625
   \<and> minActDist_after ex_exact [(ex_settings, 0), (ex_settings, 0), (ex_settings, 0)] = Fl 0
   \<and> minActDist_after ex_exact [(ex_settings, 0), (ex_settings, 0), (ex_settings, 0)] \<le> Fl 4"
  using currentMinActDist_range [of "Fl 2" ex_exact ex_settings 0
      "[(ex_settings, 0), (ex_settings, 0), (ex_settings, 0)]"]
  by (simp add: adjustMinActDist_def minActDist_after_def Let_def ex_settings_simps
      of_int_f_def mulR_def addR_def subR_def ex_exact_def ex_eighths_def)

section \<open>The test for a failed initialisation\<close>

text \<open>
  C6. The block sets \<^verbatim>\<open>initFailed\<close> exactly when the size of the keyframe history and
  the \<open>rmse\<close> meet one of the three tiers: \<open>rmse > 20 \<sdot> slack\<close> at size 2,
  \<open>rmse > 13 \<sdot> slack\<close> at size 3, \<open>rmse > 9 \<sdot> slack\<close> at size 4, the products being
  those of the machine; with five or more keyframes the flag keeps its value.
\<close>

theorem initFailed_tiers:
  "makeKeyFrame_initFailed R S n rmse f =
     (f \<or> (n = 2 \<and> rmse > mulR R (of_int_f 20) (benchmark_initializerSlackFactor S))
        \<or> (n = 3 \<and> rmse > mulR R (of_int_f 13) (benchmark_initializerSlackFactor S))
        \<or> (n = 4 \<and> rmse > mulR R (of_int_f 9) (benchmark_initializerSlackFactor S)))
   \<and> (5 \<le> n \<longrightarrow> makeKeyFrame_initFailed R S n rmse f = f)"
  by (auto simp: makeKeyFrame_initFailed_def Let_def)

text \<open>
  The statement at the slack factor 1: an \<open>rmse\<close> of 21 fails the initialisation with
  two keyframes, and not with five.
\<close>

theorem initFailed_tiers_witness:
  "makeKeyFrame_initFailed ex_exact ex_settings 2 (Fl 21) False = True
   \<and> makeKeyFrame_initFailed ex_exact ex_settings 5 (Fl 21) False = False"
  using initFailed_tiers [of ex_exact ex_settings 2 "Fl 21" False]
    initFailed_tiers [of ex_exact ex_settings 5 "Fl 21" False]
  by (simp add: ex_settings_simps of_int_f_def mulR_def ex_exact_def)

section \<open>The inverted gamma table\<close>

lemma gammaInner_length [simp]: "length (gammaInner BInv i ss T) = length T"
  by (induction ss) simp_all

lemma gammaInner_other: "j \<noteq> nat i \<Longrightarrow> gammaInner BInv i ss T ! j = T ! j"
  by (induction ss) simp_all

text \<open>The inner loop stops at the first \<open>s\<close> that passes the test.\<close>

lemma gammaInner_first:
  assumes "ss = pre @ s # post"
    and "\<forall>s' \<in> set pre. \<not> (BInv ! s' \<le> of_int_f i \<and> BInv ! (s' + 1) \<ge> of_int_f i)"
    and "BInv ! s \<le> of_int_f i \<and> BInv ! (s + 1) \<ge> of_int_f i"
  shows "gammaInner BInv i ss T =
           T[nat i := of_int_f (int s) + (of_int_f i - BInv ! s) / (BInv ! (s + 1) - BInv ! s)]"
  using assms by (induction pre arbitrary: ss) auto

lemma gammaOuter_length [simp]: "length (gammaOuter BInv is T) = length T"
  by (induction "is" arbitrary: T) simp_all

lemma gammaOuter_other: "j \<notin> set is \<Longrightarrow> gammaOuter BInv is T ! j = T ! j"
  by (induction "is" arbitrary: T) (simp_all add: gammaInner_other)

text \<open>The entry \<open>i\<close> of the result is the one that the iteration for \<open>i\<close> wrote.\<close>

lemma gammaOuter_at:
  assumes "distinct is" "i \<in> set is"
  shows "\<exists>T'. length T' = length T
           \<and> gammaOuter BInv is T ! i = gammaInner BInv (int i) [1..<255] T' ! i"
  using assms
proof (induction "is" arbitrary: T)
  case Nil
  then show ?case by simp
next
  case (Cons a "is")
  show ?case
  proof (cases "i = a")
    case True
    with Cons.prems have "i \<notin> set is" by simp
    then have "gammaOuter BInv (a # is) T ! i = gammaInner BInv (int a) [1..<255] T ! i"
      by (simp add: gammaOuter_other)
    with True show ?thesis by auto
  next
    case False
    with Cons.prems have "distinct is" "i \<in> set is" by simp_all
    from Cons.IH [OF this, of "gammaInner BInv (int a) [1..<255] T"] show ?thesis by simp
  qed
qed

lemma upt_split: "(a::nat) \<le> s \<Longrightarrow> s < b \<Longrightarrow> [a..<b] = [a..<s] @ s # [Suc s..<b]"
proof -
  assume as: "a \<le> s" and sb: "s < b"
  then obtain k where k: "b = s + k" by (metis less_imp_add_positive)
  from upt_add_eq_append [OF as, of k] k have "[a..<b] = [a..<s] @ [s..<b]" by simp
  also from sb have "[s..<b] = s # [Suc s..<b]" by (rule upt_conv_Cons)
  finally show ?thesis .
qed

text \<open>
  C7. For a caller's table \<open>BInv\<close> of 256 entries, \<^verbatim>\<open>setGammaFunction\<close> copies \<open>BInv\<close>
  into the calibration, sets \<open>B[0] = 0\<close> and \<open>B[255] = 255\<close>, and for every index
  \<open>1 \<le> i \<le> 254\<close> for which some \<open>1 \<le> s \<le> 254\<close> has \<open>BInv[s] \<le> i \<le> BInv[s+1]\<close> sets
  \<open>B[i] = s + (i - BInv[s]) / (BInv[s+1] - BInv[s])\<close> for the first such \<open>s\<close>.
\<close>

theorem setGammaFunction_inverts:
  assumes "length BInv = 256" and "length (B Hcalib) = 256"
  shows "Binv (setGammaFunction (Some BInv) Hcalib) = BInv
       \<and> B (setGammaFunction (Some BInv) Hcalib) ! 0 = Fl 0
       \<and> B (setGammaFunction (Some BInv) Hcalib) ! 255 = Fl 255
       \<and> (\<forall>i s. 1 \<le> i \<and> i \<le> 254 \<and> 1 \<le> s \<and> s \<le> 254
             \<and> BInv ! s \<le> of_int_f (int i) \<and> of_int_f (int i) \<le> BInv ! (s + 1)
             \<and> (\<forall>s'. 1 \<le> s' \<and> s' < s \<longrightarrow>
                   \<not> (BInv ! s' \<le> of_int_f (int i) \<and> of_int_f (int i) \<le> BInv ! (s' + 1)))
          \<longrightarrow> B (setGammaFunction (Some BInv) Hcalib) ! i =
                of_int_f (int s) + (of_int_f (int i) - BInv ! s) / (BInv ! (s + 1) - BInv ! s))"
proof (intro conjI allI impI)
  show "Binv (setGammaFunction (Some BInv) Hcalib) = BInv"
    using assms by (simp add: setGammaFunction_def Let_def)
  show "B (setGammaFunction (Some BInv) Hcalib) ! 0 = Fl 0"
    using assms by (simp add: setGammaFunction_def Let_def)
  show "B (setGammaFunction (Some BInv) Hcalib) ! 255 = Fl 255"
    using assms by (simp add: setGammaFunction_def Let_def)
next
  fix i s
  assume h: "1 \<le> i \<and> i \<le> 254 \<and> 1 \<le> s \<and> s \<le> 254
             \<and> BInv ! s \<le> of_int_f (int i) \<and> of_int_f (int i) \<le> BInv ! (s + 1)
             \<and> (\<forall>s'. 1 \<le> s' \<and> s' < s \<longrightarrow>
                   \<not> (BInv ! s' \<le> of_int_f (int i) \<and> of_int_f (int i) \<le> BInv ! (s' + 1)))"
  then have i: "i \<in> set [1..<255]" "i \<noteq> 0" "i \<noteq> 255" "i < 256" by auto
  from h have "1 \<le> s" "s < 255" by simp_all
  then have split: "[1..<255] = [1..<s] @ s # [Suc s..<255]" by (rule upt_split)
  from gammaOuter_at [of "[1..<255]" i "B Hcalib" BInv] i(1)
  obtain T' where T': "length T' = length (B Hcalib)"
    "gammaOuter BInv [1..<255] (B Hcalib) ! i = gammaInner BInv (int i) [1..<255] T' ! i" by auto
  have "gammaInner BInv (int i) [1..<255] T' =
          T'[nat (int i) := of_int_f (int s)
                            + (of_int_f (int i) - BInv ! s) / (BInv ! (s + 1) - BInv ! s)]"
    by (rule gammaInner_first [OF split]) (use h in auto)
  with T' assms i have "gammaOuter BInv [1..<255] (B Hcalib) ! i =
      of_int_f (int s) + (of_int_f (int i) - BInv ! s) / (BInv ! (s + 1) - BInv ! s)" by simp
  with i assms show "B (setGammaFunction (Some BInv) Hcalib) ! i =
                of_int_f (int s) + (of_int_f (int i) - BInv ! s) / (BInv ! (s + 1) - BInv ! s)"
    by (simp add: setGammaFunction_def Let_def)
qed

text \<open>
  The statement at the identity table: the copy is the table, the endpoints are 0 and
  255, and at \<open>i = 1\<close> the first \<open>s\<close> is 1, which gives \<open>B[1] = 1\<close>.
\<close>

theorem setGammaFunction_inverts_witness:
  "Binv (setGammaFunction (Some ex_BInv) ex_Hcalib) = ex_BInv
   \<and> B (setGammaFunction (Some ex_BInv) ex_Hcalib) ! 0 = Fl 0
   \<and> B (setGammaFunction (Some ex_BInv) ex_Hcalib) ! 255 = Fl 255
   \<and> B (setGammaFunction (Some ex_BInv) ex_Hcalib) ! 1 = Fl 1"
proof -
  have len: "length ex_BInv = 256" "length (B ex_Hcalib) = 256"
    by (simp_all add: ex_BInv_def ex_Hcalib_def)
  have at: "ex_BInv ! 1 = Fl 1" "ex_BInv ! (1 + 1) = Fl 2"
    by (simp_all add: ex_BInv_def)
  have first: "1 \<le> (1::nat) \<and> (1::nat) \<le> 254 \<and> 1 \<le> (1::nat) \<and> (1::nat) \<le> 254
        \<and> ex_BInv ! 1 \<le> of_int_f (int 1) \<and> of_int_f (int 1) \<le> ex_BInv ! (1 + 1)
        \<and> (\<forall>s'. 1 \<le> s' \<and> s' < 1 \<longrightarrow>
              \<not> (ex_BInv ! s' \<le> of_int_f (int 1) \<and> of_int_f (int 1) \<le> ex_BInv ! (s' + 1)))"
    using at by (simp add: of_int_f_def)
  note t = setGammaFunction_inverts [OF len]
  from t [THEN conjunct2, THEN conjunct2, THEN conjunct2, rule_format, OF first] at
  have "B (setGammaFunction (Some ex_BInv) ex_Hcalib) ! 1 = Fl 1"
    by (simp add: of_int_f_def minus_cfloat_def)
  with t show ?thesis by simp
qed

section \<open>The rescaling at initialisation\<close>










section \<open>The residual of an immature point\<close>







end
